theory Spec2Isabelle
  imports Complex_Main
begin

section \<open>Point group assignment for molecules (pymatgen/symmetry/pointgroup.py)\<close>

text \<open>
  The Python module works on numpy floating-point arrays. The embedding reads every float as
  a real number: arithmetic is exact and a comparison is the comparison of the exact values.
  Vectors are triples of reals, arrays of shape (4, 4) are lists of rows.
\<close>

subsection \<open>Vectors and arrays (numpy)\<close>

type_synonym vec = "real \<times> real \<times> real"

type_synonym matrix = "real list list"

fun vadd :: "vec \<Rightarrow> vec \<Rightarrow> vec" where
  "vadd (a, b, c) (x, y, z) = (a + x, b + y, c + z)"

fun vsub :: "vec \<Rightarrow> vec \<Rightarrow> vec" where
  "vsub (a, b, c) (x, y, z) = (a - x, b - y, c - z)"

text \<open>\<open>np.dot\<close> of two vectors of length 3.\<close>

fun vdot :: "vec \<Rightarrow> vec \<Rightarrow> real" where
  "vdot (a, b, c) (x, y, z) = a * x + b * y + c * z"

text \<open>\<open>np.cross\<close>.\<close>

fun cross :: "vec \<Rightarrow> vec \<Rightarrow> vec" where
  "cross (a, b, c) (x, y, z) = (b * z - c * y, c * x - a * z, a * y - b * x)"

text \<open>\<open>np.linalg.norm\<close> of a vector.\<close>

fun norm3 :: "vec \<Rightarrow> real" where
  "norm3 (x, y, z) = sqrt (x * x + y * y + z * z)"

definition row_dot :: "real list \<Rightarrow> real list \<Rightarrow> real" where
  "row_dot xs ys = sum_list (map2 (*) xs ys)"

text \<open>\<open>np.dot\<close> of two 2-dimensional arrays.\<close>

definition mat_dot :: "matrix \<Rightarrow> matrix \<Rightarrow> matrix" where
  "mat_dot A B = map (\<lambda>row. map (\<lambda>col. row_dot row col) (transpose B)) A"

text \<open>
  \<open>np.allclose(a, b, atol=tol)\<close> with numpy's default \<open>rtol = 1e-05\<close>: every entry
  satisfies \<open>|a - b| <= atol + rtol * |b|\<close>. The arrays compared by the module all have
  shape (4, 4); on arrays of different shapes the model answers False.
\<close>

definition rtol :: real where
  "rtol = 1 / 100000"

definition allclose :: "matrix \<Rightarrow> matrix \<Rightarrow> real \<Rightarrow> bool" where
  "allclose a b atol =
     list_all2 (list_all2 (\<lambda>x y. \<bar>x - y\<bar> \<le> atol + rtol * \<bar>y\<bar>)) a b"

subsection \<open>Symmetry operations (pymatgen.core.operations.SymmOp)\<close>

text \<open>A symmetry operation wraps its 4 x 4 affine matrix.\<close>

datatype symmop = SymmOp (affine_matrix: matrix)

text \<open>\<open>identity_op = SymmOp(np.eye(4))\<close>.\<close>

definition identity_op :: symmop where
  "identity_op = SymmOp [[1, 0, 0, 0], [0, 1, 0, 0], [0, 0, 1, 0], [0, 0, 0, 1]]"

text \<open>
  Modelled from the spec: \<open>SymmOp.inversion()\<close> (origin at zero) of the external
  collaborator, the point inversion through the origin.
\<close>

definition inversion_op :: symmop where
  "inversion_op = SymmOp [[-1, 0, 0, 0], [0, -1, 0, 0], [0, 0, -1, 0], [0, 0, 0, 1]]"

text \<open>
  Modelled from the spec: \<open>SymmOp.operate(point)\<close> of the external collaborator, the
  application of the affine matrix to the point \<open>[x, y, z, 1]\<close>, of which the first three
  coordinates are kept. A symmetry operation always has four rows; the last case is never
  taken on one.
\<close>

fun operate :: "symmop \<Rightarrow> vec \<Rightarrow> vec" where
  "operate op (x, y, z) =
     (case map (\<lambda>row. row_dot row [x, y, z, 1]) (affine_matrix op) of
        a # b # c # _ \<Rightarrow> (a, b, c)
      | _ \<Rightarrow> (0, 0, 0))"

text \<open>
  Modelled from the spec: \<open>SymmOp.reflection(normal)\<close> of the external collaborator, the
  reflection about the plane through the origin with the given normal: the normal is
  normalized to \<open>(u, v, w)\<close> first. For the zero vector numpy divides by zero and yields
  NaN entries; HOL's \<open>x / 0 = 0\<close> yields the identity matrix instead.
\<close>

fun reflection :: "vec \<Rightarrow> symmop" where
  "reflection (nx, ny, nz) =
     (let l = norm3 (nx, ny, nz);
          u = nx / l; v = ny / l; w = nz / l;
          xx = 1 - 2 * u ^ 2; yy = 1 - 2 * v ^ 2; zz = 1 - 2 * w ^ 2;
          xy = - 2 * u * v; xz = - 2 * u * w; yz = - 2 * v * w
      in SymmOp [[xx, xy, xz, 0], [xy, yy, yz, 0], [xz, yz, zz, 0], [0, 0, 0, 1]])"

text \<open>
  Modelled from the spec: \<open>SymmOp.from_origin_axis_angle((0, 0, 0), axis, angle)\<close> of the
  external collaborator, the rotation by \<open>angle\<close> degrees about the axis through the origin.
  The module passes no other origin, so the translation column is zero.
\<close>

fun from_origin_axis_angle :: "vec \<Rightarrow> real \<Rightarrow> symmop" where
  "from_origin_axis_angle (u, v, w) angle =
     (let theta = angle * pi / 180;
          u2 = u * u; v2 = v * v; w2 = w * w;
          cos_t = cos theta; sin_t = sin theta;
          l2 = u2 + v2 + w2; l = sqrt l2;
          m11 = (u2 + (v2 + w2) * cos_t) / l2;
          m12 = (u * v * (1 - cos_t) - w * l * sin_t) / l2;
          m13 = (u * w * (1 - cos_t) + v * l * sin_t) / l2;
          m21 = (u * v * (1 - cos_t) + w * l * sin_t) / l2;
          m22 = (v2 + (u2 + w2) * cos_t) / l2;
          m23 = (v * w * (1 - cos_t) - u * l * sin_t) / l2;
          m31 = (u * w * (1 - cos_t) - v * l * sin_t) / l2;
          m32 = (v * w * (1 - cos_t) + u * l * sin_t) / l2;
          m33 = (w2 + (u2 + v2) * cos_t) / l2
      in SymmOp [[m11, m12, m13, 0], [m21, m22, m23, 0], [m31, m32, m33, 0], [0, 0, 0, 1]])"

text \<open>
  Modelled from the spec: \<open>SymmOp.rotoreflection(axis, angle)\<close> of the external collaborator,
  the rotation about the axis combined with the reflection about the plane normal to it.
\<close>

definition rotoreflection :: "vec \<Rightarrow> real \<Rightarrow> symmop" where
  "rotoreflection axis angle =
     SymmOp (mat_dot (affine_matrix (from_origin_axis_angle axis angle))
                     (affine_matrix (reflection axis)))"

subsection \<open>Molecules (pymatgen.core.structure)\<close>

text \<open>
  A species has a symbol and an atomic mass; a site has Cartesian coordinates and a species;
  a molecule is a sequence of sites. A site of a molecule is ordered, so its
  \<open>species_and_occu\<close> holds that one species with occupancy 1.
\<close>

record specie =
  symbol :: string
  atomic_mass :: real

record site =
  coords :: vec
  specie :: specie

type_synonym molecule = "site list"

definition species_and_occu :: "site \<Rightarrow> (specie \<times> real) list" where
  "species_and_occu s = [(specie s, 1)]"

definition cart_coords :: "molecule \<Rightarrow> vec list" where
  "cart_coords m = map coords m"

text \<open>
  Modelled from the spec: \<open>Molecule.get_centered_molecule()\<close> of the external collaborator,
  the molecule with its center of mass subtracted from every site.
\<close>

definition center_of_mass :: "molecule \<Rightarrow> vec" where
  "center_of_mass m =
     (let total = sum_list (map (\<lambda>s. atomic_mass (specie s)) m);
          wx = sum_list (map (\<lambda>s. atomic_mass (specie s) * fst (coords s)) m);
          wy = sum_list (map (\<lambda>s. atomic_mass (specie s) * fst (snd (coords s))) m);
          wz = sum_list (map (\<lambda>s. atomic_mass (specie s) * snd (snd (coords s))) m)
      in (wx / total, wy / total, wz / total))"

definition get_centered_molecule :: "molecule \<Rightarrow> molecule" where
  "get_centered_molecule m =
     map (\<lambda>s. s\<lparr>coords := vsub (coords s) (center_of_mass m)\<rparr>) m"

text \<open>
  Modelled from the spec: \<open>find_in_coord_list(coord_list, coord, atol)\<close> of
  \<open>pymatgen.util.coord_utils\<close>, the indices of the coordinates that match \<open>coord\<close> within
  the absolute coordinate tolerance: each of the three coordinates differs by less than
  \<open>atol\<close>.
\<close>

fun coord_close :: "vec \<Rightarrow> vec \<Rightarrow> real \<Rightarrow> bool" where
  "coord_close (a, b, c) (x, y, z) atol \<longleftrightarrow> \<bar>a - x\<bar> < atol \<and> \<bar>b - y\<bar> < atol \<and> \<bar>c - z\<bar> < atol"

definition find_in_coord_list :: "vec list \<Rightarrow> vec \<Rightarrow> real \<Rightarrow> nat list" where
  "find_in_coord_list coord_list coord atol =
     filter (\<lambda>i. coord_close (coord_list ! i) coord atol) [0..<length coord_list]"

subsection \<open>Validity of an operation: \<open>is_valid_op\<close>\<close>

text \<open>
  The loop over the sites of the molecule; \<open>ind[0]\<close> is read only when \<open>ind\<close> has exactly one
  element.
\<close>

fun valid_sites :: "symmop \<Rightarrow> molecule \<Rightarrow> real \<Rightarrow> site list \<Rightarrow> bool" where
  "valid_sites symmop m atol [] = True"
| "valid_sites symmop m atol (s # rest) =
     (let coord = operate symmop (coords s);
          ind = find_in_coord_list (cart_coords m) coord atol
      in if \<not> (length ind = 1 \<and> species_and_occu (m ! (ind ! 0)) = species_and_occu s)
         then False
         else valid_sites symmop m atol rest)"

definition is_valid_op :: "symmop \<Rightarrow> molecule \<Rightarrow> real \<Rightarrow> bool" where
  "is_valid_op symmop m atol = valid_sites symmop m atol m"

text \<open>
  The mapping of atom indices that an operation induces: the index of the one atom matched
  by the transformed coordinate of atom \<open>i\<close>, when there is exactly one.
\<close>

definition induced_index :: "symmop \<Rightarrow> molecule \<Rightarrow> real \<Rightarrow> nat \<Rightarrow> nat option" where
  "induced_index symmop m atol i =
     (case find_in_coord_list (cart_coords m) (operate symmop (coords (m ! i))) atol of
        [j] \<Rightarrow> Some j
      | _ \<Rightarrow> None)"

subsection \<open>Group closure: \<open>generate_full_symmops\<close>\<close>

text \<open>The local helper \<open>in_set(op_set, mat)\<close>; \<open>tol\<close> is the enclosing function's argument.\<close>

fun in_set :: "real \<Rightarrow> symmop list \<Rightarrow> matrix \<Rightarrow> bool" where
  "in_set tol [] mat = False"
| "in_set tol (op # op_set) mat =
     (if allclose (affine_matrix op) mat tol then True else in_set tol op_set mat)"

text \<open>
  One pass of the loop over \<open>itertools.product(symmops, symmops)\<close>: the first product that
  is not in the set is appended and the loop is left. The result is the pair
  \<open>(new_set, complete)\<close> (the flag is named \<open>completed\<close> here).
\<close>

fun scan_products :: "real \<Rightarrow> symmop list \<Rightarrow> (symmop \<times> symmop) list \<Rightarrow> symmop list \<times> bool" where
  "scan_products tol symmops [] = (symmops, True)"
| "scan_products tol symmops ((op1, op2) # rest) =
     (let test_sym = mat_dot (affine_matrix op1) (affine_matrix op2)
      in if \<not> in_set tol symmops test_sym
         then (symmops @ [SymmOp test_sym], False)
         else scan_products tol symmops rest)"

function generate_full_symmops :: "symmop list \<Rightarrow> real \<Rightarrow> symmop list" where
  "generate_full_symmops symmops tol =
     (let (new_set, completed) = scan_products tol symmops (List.product symmops symmops)
      in if length new_set > 200 then new_set
         else if \<not> completed then generate_full_symmops new_set tol
         else new_set)"
  by pat_completeness auto
termination
proof (relation "measure (\<lambda>(symmops, tol). 201 - length symmops)")
  show "wf (measure (\<lambda>(symmops, tol). 201 - length symmops))"
    by simp
next
  fix symmops :: "symmop list" and tol :: real and x new_set completed
  assume x: "x = scan_products tol symmops (List.product symmops symmops)"
    and nc: "(new_set, completed) = x"
    and small: "\<not> 200 < length new_set"
    and inc: "\<not> completed"
  have shape: "scan_products tol symmops ps = (n, False) \<Longrightarrow> \<exists>m. n = symmops @ [m]" for ps n
    by (induction ps) (auto simp: Let_def split: if_splits)
  from x nc inc have "scan_products tol symmops (List.product symmops symmops) = (new_set, False)"
    by simp
  from shape [OF this] obtain m where "new_set = symmops @ [m]"
    by blast
  with small show "((new_set, tol), (symmops, tol)) \<in> measure (\<lambda>(symmops, tol). 201 - length symmops)"
    by simp
qed

declare generate_full_symmops.simps [simp del]

text \<open>
  Closure under composition, as the scan decides it: every product of two members is matched
  by some member within the tolerance.
\<close>

definition closed_under :: "real \<Rightarrow> symmop list \<Rightarrow> bool" where
  "closed_under tol ops =
     list_all (\<lambda>(op1, op2). in_set tol ops (mat_dot (affine_matrix op1) (affine_matrix op2)))
       (List.product ops ops)"

text \<open>
  The rotation about the z axis by the angle with cosine 4888/4913 and sine 495/4913
  (about 5.8 degrees), as an affine matrix.
\<close>

definition small_rotation :: symmop where
  "small_rotation = SymmOp [[4888 / 4913, - (495 / 4913), 0, 0],
                            [495 / 4913, 4888 / 4913, 0, 0],
                            [0, 0, 1, 0],
                            [0, 0, 0, 1]]"

subsection \<open>Errors\<close>

text \<open>The exceptions that the module can raise, as values.\<close>

datatype error = RuntimeError | ValueError | UnboundLocalError | AttributeError

subsection \<open>Clustering of sites: \<open>cluster_sites\<close>\<close>

text \<open>
  Modelled from the spec: \<open>scipy.cluster.hierarchy.fclusterdata(X, t, criterion='distance')\<close>
  of the external collaborator, the distance-based hierarchical clustering (single linkage,
  Euclidean metric, both scipy's defaults) cut at the threshold \<open>t\<close>. Every row handed over
  is \<open>[d, 0]\<close>, so the distance of two rows is the difference of their first entries, and two
  rows get the same label exactly when no gap larger than \<open>t\<close> lies between them in the
  sorted order of the first entries. The labels count the clusters from 1 in increasing
  order of distance; the module uses a label only as a dictionary key.
\<close>

fun chain_labels :: "real \<Rightarrow> real \<Rightarrow> nat \<Rightarrow> real list \<Rightarrow> (real \<times> nat) list" where
  "chain_labels t prev lab [] = []"
| "chain_labels t prev lab (d # ds) =
     (let lab' = (if d - prev \<le> t then lab else lab + 1)
      in (d, lab') # chain_labels t d lab' ds)"

definition fclusterdata :: "(real \<times> real) list \<Rightarrow> real \<Rightarrow> nat list" where
  "fclusterdata X t =
     (let ds = map fst X;
          labelled = (case sort ds of [] \<Rightarrow> [] | d # rest \<Rightarrow> (d, 1) # chain_labels t d 1 rest)
      in map (\<lambda>d. case map_of labelled d of Some lab \<Rightarrow> lab | None \<Rightarrow> 0) ds)"

text \<open>
  Dictionaries are association lists in insertion order. \<open>dict_append\<close> is
  \<open>d[k].append(v)\<close> on a \<open>defaultdict(list)\<close>, \<open>dict_set\<close> is \<open>d[k] = v\<close>.
\<close>

fun dict_append :: "'k \<Rightarrow> 'v \<Rightarrow> ('k \<times> 'v list) list \<Rightarrow> ('k \<times> 'v list) list" where
  "dict_append k v [] = [(k, [v])]"
| "dict_append k v ((k', vs) # rest) =
     (if k = k' then (k', vs @ [v]) # rest else (k', vs) # dict_append k v rest)"

fun dict_set :: "'k \<Rightarrow> 'v \<Rightarrow> ('k \<times> 'v) list \<Rightarrow> ('k \<times> 'v) list" where
  "dict_set k v [] = [(k, v)]"
| "dict_set k v ((k', v') # rest) =
     (if k = k' then (k', v) # rest else (k', v') # dict_set k v rest)"

text \<open>\<open>dists = [[np.linalg.norm(site.coords), 0] for site in mol]\<close>.\<close>

definition dists_of :: "molecule \<Rightarrow> (real \<times> real) list" where
  "dists_of m = map (\<lambda>s. (norm3 (coords s), 0)) m"

text \<open>
  \<open>np.mean(val)\<close> of a list of rows \<open>[d, 0]\<close>: the mean over all the entries of the rows, the
  dummy zeros included.
\<close>

definition mean_rows :: "(real \<times> real) list \<Rightarrow> real" where
  "mean_rows val = sum_list (map (\<lambda>(a, b). a + b) val) / real (2 * length val)"

definition clustered_dists :: "nat list \<Rightarrow> (real \<times> real) list \<Rightarrow> (nat \<times> (real \<times> real) list) list" where
  "clustered_dists f dists = fold (\<lambda>(lab, row) acc. dict_append lab row acc) (zip f dists) []"

definition avg_dist :: "(nat \<times> (real \<times> real) list) list \<Rightarrow> (nat \<times> real) list" where
  "avg_dist cd = map (\<lambda>(lab, val). (lab, mean_rows val)) cd"

text \<open>
  The dictionary \<open>clustered_sites\<close>: the sites under the mean of their cluster. Every label
  of \<open>f\<close> is a key of \<open>avg_dist\<close>, so the lookup never fails.
\<close>

definition clustered_sites :: "molecule \<Rightarrow> real \<Rightarrow> (real \<times> site list) list" where
  "clustered_sites m t =
     (let dists = dists_of m;
          f = fclusterdata dists t;
          avg = avg_dist (clustered_dists f dists)
      in fold (\<lambda>(lab, s) acc. case map_of avg lab of Some d \<Rightarrow> dict_append d s acc | None \<Rightarrow> acc)
           (zip f m) [])"

text \<open>
  \<open>sorted(sites, key=specie)\<close> followed by \<open>itertools.groupby\<close>: one group for each species,
  the sites of a group in their order in the molecule (the sort is stable). The order of
  the groups follows pymatgen's ordering of species, which is not modelled: the groups
  appear in the order of \<open>remdups\<close>.
\<close>

definition group_by_specie :: "site list \<Rightarrow> (specie \<times> site list) list" where
  "group_by_specie sites =
     map (\<lambda>sp. (sp, filter (\<lambda>s. specie s = sp) sites)) (remdups (map specie sites))"

text \<open>The loop over \<open>clustered_sites.items()\<close>; a cluster holds at least one site.\<close>

fun scan_clusters ::
  "real \<Rightarrow> (real \<times> site list) list \<Rightarrow> site option \<Rightarrow> ((real \<times> specie) \<times> site list) list \<Rightarrow>
     error + (site option \<times> ((real \<times> specie) \<times> site list) list)" where
  "scan_clusters t [] origin_site dist_el_sites = Inr (origin_site, dist_el_sites)"
| "scan_clusters t ((d, sites) # rest) origin_site dist_el_sites =
     (if d < t then
        (if length sites > 1 then Inl RuntimeError
         else scan_clusters t rest (Some (sites ! 0)) dist_el_sites)
      else scan_clusters t rest origin_site
             (fold (\<lambda>(sp, g) acc. dict_set (d, sp) g acc) (group_by_specie sites) dist_el_sites))"

definition cluster_sites ::
  "molecule \<Rightarrow> real \<Rightarrow> error + (site option \<times> ((real \<times> specie) \<times> site list) list)" where
  "cluster_sites m t = scan_clusters t (clustered_sites m t) None []"

subsection \<open>Helpers of the Python library\<close>

text \<open>\<open>itertools.combinations(xs, 2)\<close> and \<open>itertools.combinations(xs, 3)\<close>.\<close>

fun combinations2 :: "'a list \<Rightarrow> ('a \<times> 'a) list" where
  "combinations2 [] = []"
| "combinations2 (x # xs) = map (Pair x) xs @ combinations2 xs"

fun combinations3 :: "'a list \<Rightarrow> ('a \<times> 'a \<times> 'a) list" where
  "combinations3 [] = []"
| "combinations3 (x # xs) = map (\<lambda>(y, z). (x, y, z)) (combinations2 xs) @ combinations3 xs"

text \<open>
  \<open>max(rot_sym, key=lambda v: v[1])\<close>: the first element of the largest order; on the empty
  list Python raises ValueError, here \<open>None\<close>.
\<close>

fun max_rot :: "(vec \<times> nat) list \<Rightarrow> (vec \<times> nat) option" where
  "max_rot [] = None"
| "max_rot (x # xs) =
     (case max_rot xs of
        None \<Rightarrow> Some x
      | Some y \<Rightarrow> if snd y > snd x then Some y else Some x)"

text \<open>\<open>min(sets, key=lambda s: len(s))\<close>: the first of the shortest lists.\<close>

fun min_len :: "'a list list \<Rightarrow> 'a list option" where
  "min_len [] = None"
| "min_len (x # xs) =
     (case min_len xs of
        None \<Rightarrow> Some x
      | Some y \<Rightarrow> if length y < length x then Some y else Some x)"

text \<open>The decimal numeral of a natural number, for \<open>"C{}".format(rot)\<close>.\<close>

definition digit_char :: "nat \<Rightarrow> char" where
  "digit_char d = ''0123456789'' ! d"

fun str_nat :: "nat \<Rightarrow> string" where
  "str_nat n = (if n < 10 then [digit_char n] else str_nat (n div 10) @ [digit_char (n mod 10)])"

declare str_nat.simps [simp del]

subsection \<open>The analyzer: \<open>PointGroupAnalyzer\<close>\<close>

text \<open>
  The attributes of the analyzer object. \<open>sch_symbol\<close> is \<open>None\<close> as long as the attribute
  has not been assigned.
\<close>

record analyzer =
  mol :: molecule
  processed_mol :: molecule
  tol :: real
  eig_tol :: real
  mat_tol :: real
  principal_axes :: "vec list"
  eigvals :: "real list"
  rot_sym :: "(vec \<times> nat) list"
  symmops :: "symmop list"
  sch_symbol :: "string option"

subsubsection \<open>\<open>_find_mirror\<close>\<close>

text \<open>
  The loop over the pairs of atoms; the result is the \<open>normal\<close> at the \<open>break\<close>, or \<open>None\<close>
  when the loop runs to its end (\<open>mirror_exists\<close> stays False).
\<close>

fun scan_mirror_pairs :: "vec \<Rightarrow> molecule \<Rightarrow> real \<Rightarrow> (site \<times> site) list \<Rightarrow> vec option" where
  "scan_mirror_pairs axis pm t [] = None"
| "scan_mirror_pairs axis pm t ((s1, s2) # rest) =
     (if specie s1 = specie s2 then
        (let normal = vsub (coords s1) (coords s2)
         in if vdot normal axis < t then
              (let op = reflection normal
               in if is_valid_op op pm t then Some normal
                  else scan_mirror_pairs axis pm t rest)
            else scan_mirror_pairs axis pm t rest)
      else scan_mirror_pairs axis pm t rest)"

text \<open>The loop over \<open>rot_sym\<close> that tells "v" from "d".\<close>

fun scan_rot_axes :: "vec \<Rightarrow> vec \<Rightarrow> real \<Rightarrow> (vec \<times> nat) list \<Rightarrow> string" where
  "scan_rot_axes axis normal t [] = ''d''"
| "scan_rot_axes axis normal t ((v, r) # rest) =
     (if \<not> norm3 (vsub v axis) < t then
        (if vdot v normal < t then ''v'' else scan_rot_axes axis normal t rest)
      else scan_rot_axes axis normal t rest)"

definition find_mirror :: "analyzer \<Rightarrow> vec \<Rightarrow> string \<times> analyzer" where
  "find_mirror st axis =
     (if is_valid_op (reflection axis) (processed_mol st) (tol st)
      then (''h'', st\<lparr>symmops := symmops st @ [reflection axis]\<rparr>)
      else
        (case scan_mirror_pairs axis (processed_mol st) (tol st)
                (combinations2 (processed_mol st)) of
           None \<Rightarrow> ('''', st)
         | Some normal \<Rightarrow>
             (let st' = st\<lparr>symmops := symmops st @ [reflection normal]\<rparr>
              in if length (rot_sym st) > 1
                 then (scan_rot_axes axis normal (tol st) (rot_sym st), st')
                 else (''v'', st'))))"

subsubsection \<open>\<open>_get_smallest_set_not_on_axis\<close> and \<open>_get_smallest_sym_set\<close>\<close>

definition not_on_axis :: "real \<Rightarrow> vec \<Rightarrow> site \<Rightarrow> bool" where
  "not_on_axis t axis s = (norm3 (cross (coords s) axis) > t)"

definition get_smallest_set_not_on_axis :: "analyzer \<Rightarrow> vec \<Rightarrow> error + site list" where
  "get_smallest_set_not_on_axis st axis =
     (case cluster_sites (processed_mol st) (tol st) of
        Inl e \<Rightarrow> Inl e
      | Inr (origin_site, dist_el_sites) \<Rightarrow>
          (let valid_sets =
                 filter (\<lambda>valid_set. length valid_set > 0)
                   (map (\<lambda>(k, test_set). filter (not_on_axis (tol st) axis) test_set)
                      dist_el_sites)
           in case min_len valid_sets of
                None \<Rightarrow> Inl ValueError
              | Some s \<Rightarrow> Inr s))"

definition get_smallest_sym_set :: "analyzer \<Rightarrow> error + site list" where
  "get_smallest_sym_set st =
     (case cluster_sites (processed_mol st) (tol st) of
        Inl e \<Rightarrow> Inl e
      | Inr (origin_site, dist_el_sites) \<Rightarrow>
          (case min_len (map snd dist_el_sites) of
             None \<Rightarrow> Inl ValueError
           | Some s \<Rightarrow> Inr s))"

subsubsection \<open>\<open>_check_rot_sym\<close>\<close>

text \<open>
  The loop \<open>for i in xrange(max_sym, 0, -1)\<close>; the last argument is the current \<open>i\<close>, and
  \<open>0\<close> is the end of the range, where the function returns 1.
\<close>

fun rot_scan :: "analyzer \<Rightarrow> vec \<Rightarrow> nat \<Rightarrow> nat \<Rightarrow> nat \<times> analyzer" where
  "rot_scan st axis max_sym 0 = (1, st)"
| "rot_scan st axis max_sym (Suc k) =
     (let i = Suc k
      in if max_sym mod i \<noteq> 0 then rot_scan st axis max_sym k
         else
           (let op = from_origin_axis_angle axis (360 / real i);
                rotvalid = is_valid_op op (processed_mol st) (tol st)
            in if rotvalid
               then (i, st\<lparr>symmops := symmops st @ [op], rot_sym := rot_sym st @ [(axis, i)]\<rparr>)
               else rot_scan st axis max_sym k))"

definition check_rot_sym :: "analyzer \<Rightarrow> vec \<Rightarrow> error + (nat \<times> analyzer)" where
  "check_rot_sym st axis =
     (case get_smallest_set_not_on_axis st axis of
        Inl e \<Rightarrow> Inl e
      | Inr min_set \<Rightarrow>
          (let max_sym = length min_set
           in Inr (rot_scan st axis max_sym max_sym)))"

subsubsection \<open>\<open>_check_perpendicular_r2_axis\<close>\<close>

fun scan_r2_pairs :: "analyzer \<Rightarrow> vec \<Rightarrow> (site \<times> site) list \<Rightarrow> analyzer" where
  "scan_r2_pairs st axis [] = st"
| "scan_r2_pairs st axis ((s1, s2) # rest) =
     (let test_axis = cross (vsub (coords s1) (coords s2)) axis
      in if norm3 test_axis > tol st then
           (let op = from_origin_axis_angle test_axis 180;
                r2present = is_valid_op op (processed_mol st) (tol st)
            in if r2present
               then st\<lparr>symmops := symmops st @ [op], rot_sym := rot_sym st @ [(test_axis, 2)]\<rparr>
               else scan_r2_pairs st axis rest)
         else scan_r2_pairs st axis rest)"

definition check_perpendicular_r2_axis :: "analyzer \<Rightarrow> vec \<Rightarrow> error + analyzer" where
  "check_perpendicular_r2_axis st axis =
     (case get_smallest_set_not_on_axis st axis of
        Inl e \<Rightarrow> Inl e
      | Inr min_set \<Rightarrow> Inr (scan_r2_pairs st axis (combinations2 min_set)))"

subsubsection \<open>\<open>_proc_linear\<close>, \<open>_proc_no_rot_sym\<close>, \<open>_proc_cyclic\<close>, \<open>_proc_dihedral\<close>\<close>

definition proc_linear :: "analyzer \<Rightarrow> analyzer" where
  "proc_linear st =
     (if is_valid_op inversion_op (processed_mol st) (tol st)
      then st\<lparr>sch_symbol := Some ''D*h'', symmops := [identity_op, inversion_op]\<rparr>
      else st\<lparr>sch_symbol := Some ''C*v'', symmops := [identity_op]\<rparr>)"

fun scan_axes_for_mirror :: "analyzer \<Rightarrow> vec list \<Rightarrow> analyzer" where
  "scan_axes_for_mirror st [] = st"
| "scan_axes_for_mirror st (v # vs) =
     (case find_mirror st v of
        (mirror_type, st') \<Rightarrow>
          if \<not> mirror_type = '''' then st'\<lparr>sch_symbol := Some ''Cs''\<rparr>
          else scan_axes_for_mirror st' vs)"

definition proc_no_rot_sym :: "analyzer \<Rightarrow> analyzer" where
  "proc_no_rot_sym st =
     (let st1 = st\<lparr>sch_symbol := Some ''C1''\<rparr>
      in if is_valid_op inversion_op (processed_mol st1) (tol st1)
         then st1\<lparr>sch_symbol := Some ''Ci'', symmops := symmops st1 @ [inversion_op]\<rparr>
         else scan_axes_for_mirror st1 (principal_axes st1))"

definition proc_cyclic :: "analyzer \<Rightarrow> error + analyzer" where
  "proc_cyclic st =
     (case max_rot (rot_sym st) of
        None \<Rightarrow> Inl ValueError
      | Some (main_axis, rot) \<Rightarrow>
          (let st1 = st\<lparr>sch_symbol := Some (''C'' @ str_nat rot)\<rparr>
           in case find_mirror st1 main_axis of
                (mirror_type, st2) \<Rightarrow>
                  if mirror_type = ''h''
                  then Inr (st2\<lparr>sch_symbol := Some (''C'' @ str_nat rot @ ''h'')\<rparr>)
                  else if mirror_type = ''v''
                  then Inr (st2\<lparr>sch_symbol := Some (''C'' @ str_nat rot @ ''v'')\<rparr>)
                  else if mirror_type = ''''
                  then
                    (if is_valid_op (rotoreflection main_axis (180 / real rot))
                          (processed_mol st2) (tol st2)
                     then Inr (st2\<lparr>sch_symbol := Some (''S'' @ str_nat (2 * rot))\<rparr>)
                     else Inr st2)
                  else Inr st2))"

definition proc_dihedral :: "analyzer \<Rightarrow> error + analyzer" where
  "proc_dihedral st =
     (case max_rot (rot_sym st) of
        None \<Rightarrow> Inl ValueError
      | Some (main_axis, rot) \<Rightarrow>
          (let st1 = st\<lparr>sch_symbol := Some (''D'' @ str_nat rot)\<rparr>
           in case find_mirror st1 main_axis of
                (mirror_type, st2) \<Rightarrow>
                  if mirror_type = ''h''
                  then Inr (st2\<lparr>sch_symbol := Some (''D'' @ str_nat rot @ ''h'')\<rparr>)
                  else if \<not> mirror_type = ''''
                  then Inr (st2\<lparr>sch_symbol := Some (''D'' @ str_nat rot @ ''d'')\<rparr>)
                  else Inr st2))"

subsubsection \<open>\<open>_check_R2_axes_asym\<close> and \<open>_proc_asym_top\<close>\<close>

fun check_R2_axes_asym_loop :: "analyzer \<Rightarrow> vec list \<Rightarrow> analyzer" where
  "check_R2_axes_asym_loop st [] = st"
| "check_R2_axes_asym_loop st (v # vs) =
     (let op = from_origin_axis_angle v 180
      in if is_valid_op op (processed_mol st) (tol st)
         then check_R2_axes_asym_loop
                (st\<lparr>symmops := symmops st @ [op], rot_sym := rot_sym st @ [(v, 2)]\<rparr>) vs
         else check_R2_axes_asym_loop st vs)"

definition check_R2_axes_asym :: "analyzer \<Rightarrow> analyzer" where
  "check_R2_axes_asym st = check_R2_axes_asym_loop st (principal_axes st)"

definition proc_asym_top :: "analyzer \<Rightarrow> error + analyzer" where
  "proc_asym_top st =
     (let st1 = check_R2_axes_asym st
      in if length (rot_sym st1) = 0 then Inr (proc_no_rot_sym st1)
         else if length (rot_sym st1) = 3 then proc_dihedral st1
         else proc_cyclic st1)"

subsubsection \<open>\<open>_proc_sym_top\<close>\<close>

text \<open>
  The loop over \<open>itertools.combinations(xrange(3), 2)\<close> that assigns \<open>unique_axis\<close>; \<open>None\<close>
  when the loop ends without an assignment.
\<close>

fun find_unique_axis :: "real list \<Rightarrow> vec list \<Rightarrow> real \<Rightarrow> (nat \<times> nat) list \<Rightarrow> vec option" where
  "find_unique_axis ev axes et [] = None"
| "find_unique_axis ev axes et ((i, j) # rest) =
     (if \<bar>ev ! i - ev ! j\<bar> < et
      then (let ind = filter (\<lambda>k. k \<noteq> i \<and> k \<noteq> j) [0..<3] ! 0
            in Some (axes ! ind))
      else find_unique_axis ev axes et rest)"

definition proc_sym_top :: "analyzer \<Rightarrow> error + analyzer" where
  "proc_sym_top st =
     (case find_unique_axis (eigvals st) (principal_axes st) (eig_tol st)
             (combinations2 [0..<3]) of
        None \<Rightarrow> Inl UnboundLocalError
      | Some unique_axis \<Rightarrow>
          (case check_rot_sym st unique_axis of
             Inl e \<Rightarrow> Inl e
           | Inr (r, st1) \<Rightarrow>
               (case (if length (rot_sym st1) > 0
                      then check_perpendicular_r2_axis st1 unique_axis
                      else Inr st1) of
                  Inl e \<Rightarrow> Inl e
                | Inr st2 \<Rightarrow>
                    if length (rot_sym st2) \<ge> 2 then proc_dihedral st2
                    else if length (rot_sym st2) = 1 then proc_cyclic st2
                    else Inr (proc_no_rot_sym st2))))"

subsubsection \<open>\<open>_find_spherical_axes\<close> and \<open>_proc_sph_top\<close>\<close>

text \<open>
  \<open>rot_present\<close> is a \<open>defaultdict(bool)\<close>: a function from the order to a truth value that
  is False where nothing has been stored. \<open>try_two_fold\<close> is one of the two blocks that test
  a sum of coordinates as a 2-fold axis; \<open>try_orders\<close> is the loop \<open>for r in (3, 4, 5)\<close>.
\<close>

definition try_two_fold :: "analyzer \<Rightarrow> (nat \<Rightarrow> bool) \<Rightarrow> vec \<Rightarrow> (nat \<Rightarrow> bool) \<times> analyzer" where
  "try_two_fold st rot_present test_axis =
     (if \<not> rot_present 2 then
        (if norm3 test_axis > tol st then
           (let op = from_origin_axis_angle test_axis 180;
                valid = is_valid_op op (processed_mol st) (tol st);
                rot_present' = rot_present(2 := valid)
            in if valid
               then (rot_present',
                     st\<lparr>symmops := symmops st @ [op], rot_sym := rot_sym st @ [(test_axis, 2)]\<rparr>)
               else (rot_present', st))
         else (rot_present, st))
      else (rot_present, st))"

fun try_orders ::
  "analyzer \<Rightarrow> (nat \<Rightarrow> bool) \<Rightarrow> vec \<Rightarrow> nat list \<Rightarrow> (nat \<Rightarrow> bool) \<times> analyzer" where
  "try_orders st rot_present test_axis [] = (rot_present, st)"
| "try_orders st rot_present test_axis (r # rs) =
     (if \<not> rot_present r then
        (let op = from_origin_axis_angle test_axis (360 / real r);
             valid = is_valid_op op (processed_mol st) (tol st);
             rot_present' = rot_present(r := valid)
         in if valid
            then (rot_present',
                  st\<lparr>symmops := symmops st @ [op], rot_sym := rot_sym st @ [(test_axis, r)]\<rparr>)
            else try_orders st rot_present' test_axis rs)
      else try_orders st rot_present test_axis rs)"

fun scan_triples :: "analyzer \<Rightarrow> (nat \<Rightarrow> bool) \<Rightarrow> (site \<times> site \<times> site) list \<Rightarrow> analyzer" where
  "scan_triples st rot_present [] = st"
| "scan_triples st rot_present ((s1, s2, s3) # rest) =
     (case try_two_fold st rot_present (vadd (coords s1) (coords s2)) of
        (rp1, st1) \<Rightarrow>
          (case try_two_fold st1 rp1 (vadd (coords s1) (coords s3)) of
             (rp2, st2) \<Rightarrow>
               (let test_axis = cross (vsub (coords s2) (coords s1)) (vsub (coords s3) (coords s1))
                in case (if norm3 test_axis > tol st2
                         then try_orders st2 rp2 test_axis [3, 4, 5]
                         else (rp2, st2)) of
                     (rp3, st3) \<Rightarrow>
                       if rp3 2 \<and> rp3 2 \<and> (rp3 4 \<or> rp3 5) then st3
                       else scan_triples st3 rp3 rest)))"

definition find_spherical_axes :: "analyzer \<Rightarrow> error + analyzer" where
  "find_spherical_axes st =
     (case get_smallest_sym_set st of
        Inl e \<Rightarrow> Inl e
      | Inr test_set \<Rightarrow> Inr (scan_triples st (\<lambda>r. False) (combinations3 test_set)))"

text \<open>
  \<open>max\<close> is called on \<open>rot_sym\<close> before the test \<open>len(self.rot_sym) == 0\<close>. When no branch of
  the chain is taken the symbol stays unassigned.
\<close>

definition proc_sph_top :: "analyzer \<Rightarrow> error + analyzer" where
  "proc_sph_top st =
     (case find_spherical_axes st of
        Inl e \<Rightarrow> Inl e
      | Inr st1 \<Rightarrow>
          (case max_rot (rot_sym st1) of
             None \<Rightarrow> Inl ValueError
           | Some (main_axis, rot) \<Rightarrow>
               if length (rot_sym st1) = 0 \<or> rot < 3 then proc_sym_top st1
               else if rot = 3 then
                 (case find_mirror st1 main_axis of
                    (mirror_type, st2) \<Rightarrow>
                      if mirror_type \<noteq> '''' then
                        (if is_valid_op inversion_op (processed_mol st2) (tol st2)
                         then Inr (st2\<lparr>symmops := symmops st2 @ [inversion_op],
                                       sch_symbol := Some ''Th''\<rparr>)
                         else Inr (st2\<lparr>sch_symbol := Some ''Td''\<rparr>))
                      else Inr (st2\<lparr>sch_symbol := Some ''T''\<rparr>))
               else if rot = 4 then
                 (if is_valid_op inversion_op (processed_mol st1) (tol st1)
                  then Inr (st1\<lparr>symmops := symmops st1 @ [inversion_op],
                                sch_symbol := Some ''Oh''\<rparr>)
                  else Inr (st1\<lparr>sch_symbol := Some ''O''\<rparr>))
               else if rot = 5 then
                 (if is_valid_op inversion_op (processed_mol st1) (tol st1)
                  then Inr (st1\<lparr>symmops := symmops st1 @ [inversion_op],
                                sch_symbol := Some ''Ih''\<rparr>)
                  else Inr (st1\<lparr>sch_symbol := Some ''I''\<rparr>))
               else Inr st1))"

subsubsection \<open>\<open>_analyze\<close>\<close>

text \<open>The inertia tensor is a 3 x 3 array, here the triple of its rows.\<close>

type_synonym tensor = "vec \<times> vec \<times> vec"

text \<open>One round of the loop over the sites: the tensor and \<open>total_inertia\<close> are updated.\<close>

fun inertia_step :: "site \<Rightarrow> tensor \<times> real \<Rightarrow> tensor \<times> real" where
  "inertia_step s (((t00, t01, t02), (t10, t11, t12), (t20, t21, t22)), total_inertia) =
     (case coords s of
        (x, y, z) \<Rightarrow>
          (let wt = atomic_mass (specie s)
           in (((t00 + wt * (y ^ 2 + z ^ 2), t01 + - wt * x * y, t02 + - wt * x * z),
                (t10 + - wt * x * y, t11 + wt * (x ^ 2 + z ^ 2), t12 + - wt * y * z),
                (t20 + - wt * x * z, t21 + - wt * y * z, t22 + wt * (x ^ 2 + y ^ 2))),
               total_inertia + wt * (x ^ 2 + y ^ 2 + z ^ 2))))"

text \<open>\<open>inertia_tensor /= total_inertia\<close>. numpy yields NaN or infinite entries for a zero
  \<open>total_inertia\<close>; HOL's \<open>x / 0 = 0\<close> yields the zero tensor.\<close>

fun normalize_tensor :: "tensor \<Rightarrow> real \<Rightarrow> tensor" where
  "normalize_tensor ((t00, t01, t02), (t10, t11, t12), (t20, t21, t22)) total_inertia =
     ((t00 / total_inertia, t01 / total_inertia, t02 / total_inertia),
      (t10 / total_inertia, t11 / total_inertia, t12 / total_inertia),
      (t20 / total_inertia, t21 / total_inertia, t22 / total_inertia))"

text \<open>
  The four branches of the dispatch. \<open>classify\<close> is the chain
  \<open>if eig_zero ... elif eig_all_same ... elif eig_all_diff ... else\<close> with the three tests as
  the source computes them from \<open>v1, v2, v3\<close> and \<open>eig_tol\<close>.
\<close>

datatype top = Linear | SphericalTop | AsymmetricTop | SymmetricTop

definition classify :: "real \<Rightarrow> real \<Rightarrow> real \<Rightarrow> real \<Rightarrow> top" where
  "classify v1 v2 v3 et =
     (let eig_zero = \<bar>v1 * v2 * v3\<bar> < et ^ 3;
          eig_all_same = (\<bar>v1 - v2\<bar> < et \<and> \<bar>v1 - v3\<bar> < et);
          eig_all_diff = (\<bar>v1 - v2\<bar> > et \<and> \<bar>v1 - v2\<bar> > et \<and> \<bar>v2 - v3\<bar> > et)
      in if eig_zero then Linear
         else if eig_all_same then SphericalTop
         else if eig_all_diff then AsymmetricTop
         else SymmetricTop)"

text \<open>
  \<open>np.linalg.eig\<close> is a parameter: \<open>eig\<close> maps the normalized tensor to the eigenvalues
  \<open>(v1, v2, v3)\<close> and to the principal axes (the rows of \<open>eigvecs.T\<close>).

  The locals \<open>inertia_tensor\<close> and \<open>total_inertia\<close> are assigned in the \<open>else\<close> branch only, and
  the statements after the \<open>if\<close> read them: they are \<open>None\<close> as long as they are unbound, and
  reading an unbound local raises UnboundLocalError.
\<close>

definition analyze :: "(tensor \<Rightarrow> (real \<times> real \<times> real) \<times> vec list) \<Rightarrow> analyzer \<Rightarrow> error + analyzer" where
  "analyze eig st =
     (case (if length (processed_mol st) = 1
            then (st\<lparr>sch_symbol := Some ''Kh''\<rparr>, None)
            else (st, Some (fold inertia_step (mol st)
                              (((0, 0, 0), (0, 0, 0), (0, 0, 0)), 0)))) of
        (st1, None) \<Rightarrow> Inl UnboundLocalError
      | (st1, Some (inertia_tensor, total_inertia)) \<Rightarrow>
          (case eig (normalize_tensor inertia_tensor total_inertia) of
             ((v1, v2, v3), eigvecs_T) \<Rightarrow>
               (let st2 = st1\<lparr>principal_axes := eigvecs_T, eigvals := [v1, v2, v3],
                               rot_sym := [], symmops := [identity_op]\<rparr>
                in case classify v1 v2 v3 (eig_tol st2) of
                     Linear \<Rightarrow> Inr (proc_linear st2)
                   | SphericalTop \<Rightarrow> proc_sph_top st2
                   | AsymmetricTop \<Rightarrow> proc_asym_top st2
                   | SymmetricTop \<Rightarrow> proc_sym_top st2)))"

text \<open>The constructor \<open>PointGroupAnalyzer(mol, tolerance, eigen_tolerance, matrix_tol)\<close>.\<close>

definition PointGroupAnalyzer ::
  "(tensor \<Rightarrow> (real \<times> real \<times> real) \<times> vec list) \<Rightarrow> molecule \<Rightarrow> real \<Rightarrow> real \<Rightarrow> real \<Rightarrow>
     error + analyzer" where
  "PointGroupAnalyzer eig m tolerance eigen_tolerance matrix_tol =
     analyze eig
       \<lparr>mol = m, processed_mol = get_centered_molecule m, tol = tolerance,
        eig_tol = eigen_tolerance, mat_tol = matrix_tol, principal_axes = [], eigvals = [],
        rot_sym = [], symmops = [], sch_symbol = None\<rparr>"

subsection \<open>The point group: \<open>PointGroup\<close> and \<open>get_pointgroup\<close>\<close>

text \<open>A point group is the list of its operations with the symbol as an attribute.\<close>

record point_group =
  pg_sch_symbol :: string
  operations :: "symmop list"

definition PointGroup :: "string \<Rightarrow> symmop list \<Rightarrow> real \<Rightarrow> point_group" where
  "PointGroup sch ops t = \<lparr>pg_sch_symbol = sch, operations = generate_full_symmops ops t\<rparr>"

text \<open>Reading the attribute \<open>sch_symbol\<close> before it is assigned raises AttributeError.\<close>

definition get_pointgroup :: "analyzer \<Rightarrow> error + point_group" where
  "get_pointgroup st =
     (case sch_symbol st of
        None \<Rightarrow> Inl AttributeError
      | Some sch \<Rightarrow> Inr (PointGroup sch (symmops st) (mat_tol st)))"

subsection \<open>Molecules used as concrete inputs\<close>

definition hydrogen :: specie where
  "hydrogen = \<lparr>symbol = ''H'', atomic_mass = 100794 / 100000\<rparr>"

text \<open>
  Three hydrogen atoms on a line through the origin, one of them at the origin; the center
  of mass is the origin.
\<close>

definition crowded_molecule :: molecule where
  "crowded_molecule =
     [\<lparr>coords = (0, 0, 0), specie = hydrogen\<rparr>,
      \<lparr>coords = (27 / 80, 27 / 80, 0), specie = hydrogen\<rparr>,
      \<lparr>coords = (- (27 / 80), - (27 / 80), 0), specie = hydrogen\<rparr>]"

text \<open>Two hydrogen atoms at distance 1 from the origin on the z axis.\<close>

definition diatomic :: molecule where
  "diatomic =
     [\<lparr>coords = (0, 0, 1), specie = hydrogen\<rparr>,
      \<lparr>coords = (0, 0, -1), specie = hydrogen\<rparr>]"


definition helium :: specie where
  "helium = \<lparr>symbol = ''He'', atomic_mass = 4002602 / 1000000\<rparr>"

definition oxygen :: specie where
  "oxygen = \<lparr>symbol = ''O'', atomic_mass = 159994 / 10000\<rparr>"

text \<open>
  \<open>np.linalg.eig\<close> on a diagonal tensor: the eigenvalues are the diagonal entries in their
  order and the eigenvectors are the unit vectors. The molecules below have their atoms on
  the coordinate axes, in pairs at opposite positions, so their tensors are diagonal.
\<close>

definition diagonal_eig :: "tensor \<Rightarrow> (real \<times> real \<times> real) \<times> vec list" where
  "diagonal_eig T =
     (case T of ((t00, t01, t02), (t10, t11, t12), (t20, t21, t22)) \<Rightarrow>
        ((t00, t11, t22), [(1, 0, 0), (0, 1, 0), (0, 0, 1)]))"

text \<open>
  A square of four hydrogen atoms in the xz plane with two more on the y axis: a symmetric
  top with the 4-fold axis y (point group D4h). Its normalized tensor has the eigenvalues
  5/6, 1/3, 5/6.
\<close>

definition bipyramid :: molecule where
  "bipyramid =
     [\<lparr>coords = (1, 0, 0), specie = hydrogen\<rparr>,
      \<lparr>coords = (-1, 0, 0), specie = hydrogen\<rparr>,
      \<lparr>coords = (0, 0, 1), specie = hydrogen\<rparr>,
      \<lparr>coords = (0, 0, -1), specie = hydrogen\<rparr>,
      \<lparr>coords = (0, 2, 0), specie = hydrogen\<rparr>,
      \<lparr>coords = (0, -2, 0), specie = hydrogen\<rparr>]"

text \<open>The analyzer of \<open>bipyramid\<close> at the dispatch, with the default tolerances.\<close>

definition bip_state :: analyzer where
  "bip_state =
     \<lparr>mol = bipyramid, processed_mol = bipyramid, tol = 3 / 10, eig_tol = 1 / 100,
      mat_tol = 1 / 10, principal_axes = [(1, 0, 0), (0, 1, 0), (0, 0, 1)],
      eigvals = [5 / 6, 1 / 3, 5 / 6], rot_sym = [], symmops = [identity_op],
      sch_symbol = None\<rparr>"

text \<open>
  Pairs of hydrogen, helium and oxygen atoms on the x, y and z axis at the distances 4, 2
  and 1: mass times squared distance is nearly the same for the three pairs, so the three
  eigenvalues agree within 0.003 (an accidental spherical top of point group D2h).
\<close>

definition balanced_cross :: molecule where
  "balanced_cross =
     [\<lparr>coords = (4, 0, 0), specie = hydrogen\<rparr>,
      \<lparr>coords = (-4, 0, 0), specie = hydrogen\<rparr>,
      \<lparr>coords = (0, 2, 0), specie = helium\<rparr>,
      \<lparr>coords = (0, -2, 0), specie = helium\<rparr>,
      \<lparr>coords = (0, 0, 1), specie = oxygen\<rparr>,
      \<lparr>coords = (0, 0, -1), specie = oxygen\<rparr>]"

text \<open>The analyzer of \<open>balanced_cross\<close> at the dispatch, with the default tolerances.\<close>

definition cross_state :: analyzer where
  "cross_state =
     \<lparr>mol = balanced_cross, processed_mol = balanced_cross, tol = 3 / 10, eig_tol = 1 / 100,
      mat_tol = 1 / 10, principal_axes = [(1, 0, 0), (0, 1, 0), (0, 0, 1)],
      eigvals = [666871 / 1002851, 4015805 / 6017106, 4017181 / 6017106], rot_sym = [],
      symmops = [identity_op], sch_symbol = None\<rparr>"

text \<open>
  Six hydrogen atoms in the xz plane: four on the corners of a square and two on the z
  axis. The sums of the products of two different coordinates vanish, so the tensor is
  diagonal; the normalized tensor has the eigenvalues 3/4, 1, 1/4, and the first two differ
  by 1/4. All these numbers, and the sums that lead to them, are exact in binary floating
  point as well.
\<close>

definition planar_six :: molecule where
  "planar_six =
     [\<lparr>coords = (1, 0, 1), specie = hydrogen\<rparr>,
      \<lparr>coords = (1, 0, -1), specie = hydrogen\<rparr>,
      \<lparr>coords = (-1, 0, 1), specie = hydrogen\<rparr>,
      \<lparr>coords = (-1, 0, -1), specie = hydrogen\<rparr>,
      \<lparr>coords = (0, 0, 2), specie = hydrogen\<rparr>,
      \<lparr>coords = (0, 0, -2), specie = hydrogen\<rparr>]"

text \<open>Two hydrogen atoms on the line through the origin with direction (1, 0, -1).\<close>

definition tilted_pair :: molecule where
  "tilted_pair =
     [\<lparr>coords = (1 / 2, 0, - (1 / 2)), specie = hydrogen\<rparr>,
      \<lparr>coords = (- (1 / 2), 0, 1 / 2), specie = hydrogen\<rparr>]"



text \<open>The value that \<open>_check_rot_sym\<close> returns, without the updated analyzer.\<close>

definition check_rot_sym_order :: "analyzer \<Rightarrow> vec \<Rightarrow> error + nat" where
  "check_rot_sym_order st axis =
     (case check_rot_sym st axis of Inl e \<Rightarrow> Inl e | Inr (i, st') \<Rightarrow> Inr i)"

text \<open>
  Any two atoms of the molecule differ by at least \<open>d\<close> in one of their coordinates, so
  that no point matches two atoms within the tolerance \<open>d / 2\<close>.
\<close>

definition well_separated :: "molecule \<Rightarrow> real \<Rightarrow> bool" where
  "well_separated m d =
     list_all (\<lambda>(s1, s2). \<not> coord_close (coords s1) (coords s2) d) (combinations2 m)"

text \<open>
  Two pairs of hydrogen atoms, each pair symmetric about the z axis: an inner pair at the
  distance 0.135 from the axis and an outer pair at the distance 0.8. The 2-fold rotation
  about z maps the molecule onto itself.
\<close>

definition nested_pairs :: molecule where
  "nested_pairs =
     [\<lparr>coords = (27 / 200, 0, 3 / 5), specie = hydrogen\<rparr>,
      \<lparr>coords = (- (27 / 200), 0, 3 / 5), specie = hydrogen\<rparr>,
      \<lparr>coords = (4 / 5, 0, - (3 / 5)), specie = hydrogen\<rparr>,
      \<lparr>coords = (- (4 / 5), 0, - (3 / 5)), specie = hydrogen\<rparr>]"

definition nested_state :: analyzer where
  "nested_state =
     \<lparr>mol = nested_pairs, processed_mol = nested_pairs, tol = 3 / 10, eig_tol = 1 / 100,
      mat_tol = 1 / 10, principal_axes = [(1, 0, 0), (0, 1, 0), (0, 0, 1)],
      eigvals = [28800 / 55129, 1, 26329 / 55129], rot_sym = [], symmops = [identity_op],
      sch_symbol = None\<rparr>"

text \<open>Four hydrogen atoms on a square in the xy plane, with the 4-fold axis z.\<close>

definition square :: molecule where
  "square =
     [\<lparr>coords = (1, 0, 0), specie = hydrogen\<rparr>,
      \<lparr>coords = (0, 1, 0), specie = hydrogen\<rparr>,
      \<lparr>coords = (-1, 0, 0), specie = hydrogen\<rparr>,
      \<lparr>coords = (0, -1, 0), specie = hydrogen\<rparr>]"

definition square_state :: analyzer where
  "square_state =
     \<lparr>mol = square, processed_mol = square, tol = 3 / 10, eig_tol = 1 / 100,
      mat_tol = 1 / 10, principal_axes = [(1, 0, 0), (0, 1, 0), (0, 0, 1)],
      eigvals = [1 / 2, 1 / 2, 1], rot_sym = [], symmops = [identity_op],
      sch_symbol = None\<rparr>"

section \<open>Properties\<close>

subsection \<open>Group closure\<close>

lemma scan_products_shape:
  "scan_products atol ops ps = (new_set, completed) \<Longrightarrow>
     (completed \<and> new_set = ops) \<or> (\<not> completed \<and> (\<exists>m. new_set = ops @ [m]))"
  by (induction ps) (auto simp: Let_def split: if_splits)

lemma scan_products_all:
  "scan_products atol ops ps = (new_set, True) \<Longrightarrow>
     list_all (\<lambda>(op1, op2). in_set atol ops (mat_dot (affine_matrix op1) (affine_matrix op2))) ps"
  by (induction ps) (auto simp: Let_def split: if_splits)

lemma in_set_append: "in_set atol xs m \<Longrightarrow> in_set atol (xs @ ys) m"
  by (induction xs) auto

lemma gfs_prefix: "\<exists>ys. generate_full_symmops ops atol = ops @ ys"
proof (induction ops atol rule: generate_full_symmops.induct)
  case (1 ops atol)
  obtain new_set completed where sp:
    "scan_products atol ops (List.product ops ops) = (new_set, completed)"
    by (cases "scan_products atol ops (List.product ops ops)")
  from scan_products_shape [OF sp] obtain zs where zs: "new_set = ops @ zs"
    by auto
  show ?case
  proof (cases "\<not> 200 < length new_set \<and> \<not> completed")
    case True
    with 1 [OF sp [symmetric] refl] obtain ys where "generate_full_symmops new_set atol = new_set @ ys"
      by auto
    with True sp zs show ?thesis
      by (subst generate_full_symmops.simps) auto
  next
    case False
    with sp zs show ?thesis
      by (subst generate_full_symmops.simps) auto
  qed
qed

lemma gfs_length: "length (generate_full_symmops ops atol) \<le> max 201 (Suc (length ops))"
proof (induction ops atol rule: generate_full_symmops.induct)
  case (1 ops atol)
  obtain new_set completed where sp:
    "scan_products atol ops (List.product ops ops) = (new_set, completed)"
    by (cases "scan_products atol ops (List.product ops ops)")
  from scan_products_shape [OF sp] have len: "length new_set \<le> Suc (length ops)"
    by auto
  show ?case
  proof (cases "\<not> 200 < length new_set \<and> \<not> completed")
    case True
    with 1 [OF sp [symmetric] refl]
    have "length (generate_full_symmops new_set atol) \<le> max 201 (Suc (length new_set))"
      by auto
    with True sp len show ?thesis
      by (subst generate_full_symmops.simps) auto
  next
    case False
    with sp len show ?thesis
      by (subst generate_full_symmops.simps) auto
  qed
qed

lemma gfs_closed:
  "length (generate_full_symmops ops atol) \<le> 200 \<Longrightarrow>
     closed_under atol (generate_full_symmops ops atol)"
proof (induction ops atol rule: generate_full_symmops.induct)
  case (1 ops atol)
  obtain new_set completed where sp:
    "scan_products atol ops (List.product ops ops) = (new_set, completed)"
    by (cases "scan_products atol ops (List.product ops ops)")
  show ?case
  proof (cases "200 < length new_set")
    case True
    with sp have "generate_full_symmops ops atol = new_set"
      by (subst generate_full_symmops.simps) auto
    with True "1.prems" show ?thesis by simp
  next
    case small: False
    show ?thesis
    proof (cases completed)
      case True
      with sp small have eq: "generate_full_symmops ops atol = new_set"
        by (subst generate_full_symmops.simps) auto
      from scan_products_shape [OF sp] True have "new_set = ops" by auto
      with scan_products_all sp True eq show ?thesis
        by (auto simp: closed_under_def)
    next
      case False
      with sp small
      have eq: "generate_full_symmops ops atol = generate_full_symmops new_set atol"
        by (subst generate_full_symmops.simps) auto
      with 1 sp small False show ?thesis
        by auto
    qed
  qed
qed

lemma gfs_identity_inversion:
  "generate_full_symmops [identity_op, inversion_op] (1 / 10) = [identity_op, inversion_op]"
  by (subst generate_full_symmops.simps)
     (simp add: inversion_op_def identity_op_def mat_dot_def row_dot_def allclose_def rtol_def)

lemma gfs_inversion:
  "generate_full_symmops [inversion_op] (1 / 10) = [inversion_op, identity_op]"
  apply (subst generate_full_symmops.simps)
  apply (simp add: inversion_op_def identity_op_def mat_dot_def row_dot_def allclose_def rtol_def)
  apply (subst generate_full_symmops.simps)
  apply (simp add: inversion_op_def identity_op_def mat_dot_def row_dot_def allclose_def rtol_def)
  done

lemma gfs_small_rotation:
  "generate_full_symmops [small_rotation] (1 / 10) = [small_rotation]"
  by (subst generate_full_symmops.simps)
     (simp add: small_rotation_def mat_dot_def row_dot_def allclose_def rtol_def)

text \<open>
  C4, as the claim states it, fails: the one-element generating set holding the rotation
  \<open>small_rotation\<close> is returned unchanged at the default tolerance 0.1 (its square is
  matched by the rotation itself), far below the ceiling, and no member of the result is
  equal to the identity matrix within the tolerance.
\<close>

theorem closure_identity_counterexample:
  "length (generate_full_symmops [small_rotation] (1 / 10)) \<le> 200 \<and>
   \<not> in_set (1 / 10) (generate_full_symmops [small_rotation] (1 / 10))
         (affine_matrix identity_op)"
  by (simp add: gfs_small_rotation)
     (simp add: small_rotation_def identity_op_def allclose_def rtol_def)

text \<open>
  C4, amended: for every generating set that already holds an operator equal within tolerance
  to the identity matrix, the sequence returned by \<open>generate_full_symmops\<close> holds one as
  well (whether or not the ceiling is reached); and for every generating set, whenever the
  returned sequence has at most 200 members (the scan ended on a full pass and not on the
  ceiling) the product of any two members is matched within tolerance by some member.
\<close>

theorem closure_identity_and_fixpoint:
  "(in_set atol ops (affine_matrix identity_op) \<longrightarrow>
      in_set atol (generate_full_symmops ops atol) (affine_matrix identity_op)) \<and>
   (length (generate_full_symmops ops atol) \<le> 200 \<longrightarrow>
      closed_under atol (generate_full_symmops ops atol))"
proof (intro conjI impI)
  assume "in_set atol ops (affine_matrix identity_op)"
  moreover from gfs_prefix obtain ys where "generate_full_symmops ops atol = ops @ ys"
    by blast
  ultimately show "in_set atol (generate_full_symmops ops atol) (affine_matrix identity_op)"
    by (simp add: in_set_append)
next
  assume "length (generate_full_symmops ops atol) \<le> 200"
  then show "closed_under atol (generate_full_symmops ops atol)"
    by (rule gfs_closed)
qed

theorem closure_identity_and_fixpoint_witness:
  "in_set (1 / 10) [identity_op, inversion_op] (affine_matrix identity_op) \<and>
   in_set (1 / 10) (generate_full_symmops [identity_op, inversion_op] (1 / 10))
     (affine_matrix identity_op) \<and>
   length (generate_full_symmops [inversion_op] (1 / 10)) \<le> 200 \<and>
   closed_under (1 / 10) (generate_full_symmops [inversion_op] (1 / 10))"
proof -
  have a: "in_set (1 / 10) [identity_op, inversion_op] (affine_matrix identity_op)"
    by (simp add: identity_op_def allclose_def rtol_def)
  have b: "length (generate_full_symmops [inversion_op] (1 / 10)) \<le> 200"
    by (simp add: gfs_inversion)
  from closure_identity_and_fixpoint [of "1 / 10" "[identity_op, inversion_op]"] a
  have c: "in_set (1 / 10) (generate_full_symmops [identity_op, inversion_op] (1 / 10))
     (affine_matrix identity_op)"
    by blast
  from closure_identity_and_fixpoint [of "1 / 10" "[inversion_op]"] b
  have d: "closed_under (1 / 10) (generate_full_symmops [inversion_op] (1 / 10))"
    by blast
  from a b c d show ?thesis
    by blast
qed

text \<open>
  C5, as the claim states it, fails in its last part: a generating set of 202 operators is
  returned with at least its 202 members, more than 201.
\<close>

theorem closure_size_counterexample:
  "length (generate_full_symmops (replicate 202 identity_op) (1 / 10)) > 201"
proof -
  from gfs_prefix obtain ys where
    "generate_full_symmops (replicate 202 identity_op) (1 / 10) = replicate 202 identity_op @ ys"
    by blast
  then show ?thesis by simp
qed

text \<open>
  C5, amended: \<open>generate_full_symmops\<close> terminates on every input (it is a total function:
  each recursive call follows a pass that appended exactly one operator to a set of fewer
  than 200), the generating set is a prefix of the returned list, and the returned list has
  at most 201 elements or, for a generating set of more than 200 operators, at most one
  element more than the generating set.
\<close>

theorem closure_terminates_bounded:
  "(\<exists>ys. generate_full_symmops ops atol = ops @ ys) \<and>
   length (generate_full_symmops ops atol) \<le> max 201 (Suc (length ops))"
  using gfs_prefix gfs_length by blast

subsection \<open>Validity of an operation\<close>

lemma sqrt_729: "sqrt 729 = 27"
  by (rule real_sqrt_unique) simp_all

lemma skew_reflection:
  "reflection (25, 2, -10) =
     SymmOp [[- (521 / 729), - (100 / 729), 500 / 729, 0],
             [- (100 / 729), 721 / 729, 40 / 729, 0],
             [500 / 729, 40 / 729, 529 / 729, 0],
             [0, 0, 0, 1]]"
  by (simp add: sqrt_729 power2_eq_square Let_def)

lemma find_in_coord_list_set:
  "set (find_in_coord_list cs c atol) = {i. i < length cs \<and> coord_close (cs ! i) c atol}"
  by (auto simp: find_in_coord_list_def)

lemma valid_sites_all:
  "valid_sites symmop m atol ss \<longleftrightarrow>
     (\<forall>s \<in> set ss. \<exists>j. find_in_coord_list (cart_coords m) (operate symmop (coords s)) atol = [j]
         \<and> species_and_occu (m ! j) = species_and_occu s)"
proof (induction ss)
  case Nil
  show ?case by simp
next
  case (Cons s ss)
  define xs where "xs = find_in_coord_list (cart_coords m) (operate symmop (coords s)) atol"
  have one: "(length xs = 1 \<and> species_and_occu (m ! (xs ! 0)) = species_and_occu s) \<longleftrightarrow>
             (\<exists>j. xs = [j] \<and> species_and_occu (m ! j) = species_and_occu s)"
    by (cases xs) auto
  have "valid_sites symmop m atol (s # ss) \<longleftrightarrow>
          (length xs = 1 \<and> species_and_occu (m ! (xs ! 0)) = species_and_occu s) \<and>
          valid_sites symmop m atol ss"
    unfolding xs_def by (auto simp add: Let_def simp del: One_nat_def)
  with one Cons.IH show ?case
    unfolding xs_def by simp
qed

lemma is_valid_crowded: "is_valid_op (reflection (25, 2, -10)) crowded_molecule (3 / 10)"
  unfolding skew_reflection
  by (simp add: is_valid_op_def crowded_molecule_def find_in_coord_list_def cart_coords_def
        row_dot_def species_and_occu_def upt_rec)

lemma induced_crowded:
  "induced_index (reflection (25, 2, -10)) crowded_molecule (3 / 10) 1 = Some 0"
  "induced_index (reflection (25, 2, -10)) crowded_molecule (3 / 10) 2 = Some 0"
  unfolding skew_reflection
  by (simp_all add: induced_index_def crowded_molecule_def find_in_coord_list_def cart_coords_def
        row_dot_def upt_rec)

lemma is_valid_inversion_diatomic: "is_valid_op inversion_op diatomic (3 / 10)"
  by (simp add: is_valid_op_def diatomic_def inversion_op_def find_in_coord_list_def
        cart_coords_def row_dot_def species_and_occu_def upt_rec)

text \<open>
  C8, as the claim states it, fails: the reflection about the plane with normal (25, 2, -10)
  is a valid operation, at tolerance 0.3, of three hydrogen atoms at (0, 0, 0),
  (0.3375, 0.3375, 0) and (-0.3375, -0.3375, 0), and the induced mapping sends the atoms 1
  and 2 both to the atom 0: it is not injective on the atom indices.
\<close>

theorem valid_op_not_bijective:
  "is_valid_op (reflection (25, 2, -10)) crowded_molecule (3 / 10) \<and>
   induced_index (reflection (25, 2, -10)) crowded_molecule (3 / 10) 1 = Some 0 \<and>
   induced_index (reflection (25, 2, -10)) crowded_molecule (3 / 10) 2 = Some 0 \<and>
   \<not> inj_on (induced_index (reflection (25, 2, -10)) crowded_molecule (3 / 10))
       {0 ..< length crowded_molecule}"
proof -
  have "\<not> inj_on (induced_index (reflection (25, 2, -10)) crowded_molecule (3 / 10))
          {0 ..< length crowded_molecule}"
  proof
    assume "inj_on (induced_index (reflection (25, 2, -10)) crowded_molecule (3 / 10))
              {0 ..< length crowded_molecule}"
    moreover have "(1::nat) \<in> {0 ..< length crowded_molecule}"
      and "(2::nat) \<in> {0 ..< length crowded_molecule}"
      by (simp_all add: crowded_molecule_def)
    ultimately have "(1::nat) = 2"
      using induced_crowded by (auto simp only: inj_on_def)
    then show False by simp
  qed
  with is_valid_crowded induced_crowded show ?thesis
    by simp
qed

text \<open>
  C8, amended: if \<open>is_valid_op\<close> returns true then the transformed coordinate of every atom
  is matched within tolerance by exactly one atom, the induced mapping is defined on every
  atom index, and it preserves the species. (It is a well-defined species-preserving mapping
  of the atoms into the atoms; nothing makes it injective.)
\<close>

theorem valid_op_mapping:
  assumes "is_valid_op symmop m atol" and "i < length m"
  shows "\<exists>j < length m. induced_index symmop m atol i = Some j \<and>
           find_in_coord_list (cart_coords m) (operate symmop (coords (m ! i))) atol = [j] \<and>
           coord_close (coords (m ! j)) (operate symmop (coords (m ! i))) atol \<and>
           specie (m ! j) = specie (m ! i)"
proof -
  from assms(2) have "m ! i \<in> set m" by simp
  with assms(1) obtain j where
    j: "find_in_coord_list (cart_coords m) (operate symmop (coords (m ! i))) atol = [j]"
    and sp: "species_and_occu (m ! j) = species_and_occu (m ! i)"
    unfolding is_valid_op_def valid_sites_all by blast
  from j have "j \<in> set (find_in_coord_list (cart_coords m) (operate symmop (coords (m ! i))) atol)"
    by simp
  then have "j < length m" and "coord_close (coords (m ! j)) (operate symmop (coords (m ! i))) atol"
    by (auto simp add: find_in_coord_list_set cart_coords_def)
  with j sp show ?thesis
    by (auto simp: induced_index_def species_and_occu_def)
qed

theorem valid_op_mapping_witness:
  "is_valid_op inversion_op diatomic (3 / 10) \<and> (0::nat) < length diatomic \<and>
   (\<exists>j < length diatomic. induced_index inversion_op diatomic (3 / 10) 0 = Some j \<and>
      find_in_coord_list (cart_coords diatomic) (operate inversion_op (coords (diatomic ! 0)))
        (3 / 10) = [j] \<and>
      coord_close (coords (diatomic ! j)) (operate inversion_op (coords (diatomic ! 0))) (3 / 10) \<and>
      specie (diatomic ! j) = specie (diatomic ! 0))"
proof -
  have len: "(0::nat) < length diatomic"
    by (simp add: diatomic_def)
  from valid_op_mapping [OF is_valid_inversion_diatomic len] is_valid_inversion_diatomic len
  show ?thesis by blast
qed

subsection \<open>Evaluation of the operations on concrete inputs\<close>

lemma str_nat_2: "str_nat 2 = ''2''"
  by (simp add: str_nat.simps digit_char_def)

lemma norm3_x: "norm3 (a, 0, 0) = \<bar>a\<bar>"
  by simp

lemma norm3_y: "norm3 (0, a, 0) = \<bar>a\<bar>"
  by simp

lemma norm3_z: "norm3 (0, 0, a) = \<bar>a\<bar>"
  by simp

lemma rot180_x: "from_origin_axis_angle (1, 0, 0) 180 =
    SymmOp [[1, 0, 0, 0], [0, -1, 0, 0], [0, 0, -1, 0], [0, 0, 0, 1]]"
  by (simp add: Let_def)

lemma rot180_y: "from_origin_axis_angle (0, 1, 0) 180 =
    SymmOp [[-1, 0, 0, 0], [0, 1, 0, 0], [0, 0, -1, 0], [0, 0, 0, 1]]"
  by (simp add: Let_def)

lemma rot180_z: "from_origin_axis_angle (0, 0, 1) 180 =
    SymmOp [[-1, 0, 0, 0], [0, -1, 0, 0], [0, 0, 1, 0], [0, 0, 0, 1]]"
  by (simp add: Let_def)

lemma rot360_z: "from_origin_axis_angle (0, 0, 1) 360 =
    SymmOp [[1, 0, 0, 0], [0, 1, 0, 0], [0, 0, 1, 0], [0, 0, 0, 1]]"
  by (simp add: Let_def)

lemma rot90_z: "from_origin_axis_angle (0, 0, 1) 90 =
    SymmOp [[0, -1, 0, 0], [1, 0, 0, 0], [0, 0, 1, 0], [0, 0, 0, 1]]"
  by (simp add: Let_def)

lemma refl_x: "reflection (1, 0, 0) =
    SymmOp [[-1, 0, 0, 0], [0, 1, 0, 0], [0, 0, 1, 0], [0, 0, 0, 1]]"
  by (simp add: Let_def)

lemma refl_z: "reflection (0, 0, 1) =
    SymmOp [[1, 0, 0, 0], [0, 1, 0, 0], [0, 0, -1, 0], [0, 0, 0, 1]]"
  by (simp add: Let_def)

lemma refl_skew: "reflection (1, 0, -1) =
    SymmOp [[0, 0, 1, 0], [0, 1, 0, 0], [1, 0, 0, 0], [0, 0, 0, 1]]"
  by (simp add: Let_def power_divide)

lemma refl_skew': "reflection (-1, 0, 1) =
    SymmOp [[0, 0, 1, 0], [0, 1, 0, 0], [1, 0, 0, 0], [0, 0, 0, 1]]"
  by (simp add: Let_def power_divide)

lemma combinations_range3: "combinations2 [0..<3] = [(0, 1), (0, 2), (1, 2)]"
  by (simp add: upt_rec)

lemmas valid_eval = is_valid_op_def find_in_coord_list_def cart_coords_def row_dot_def
  species_and_occu_def upt_rec

subsection \<open>The dispatch of \<open>_analyze\<close>\<close>

text \<open>
  C1: the analysis of a molecule of exactly one atom does not complete. The symbol "Kh" is
  assigned, and the statement after the \<open>if\<close> then reads the local \<open>inertia_tensor\<close>, which
  only the \<open>else\<close> branch assigns: the constructor raises UnboundLocalError, for every
  one-atom molecule, every eigenvalue routine and all tolerances.
\<close>

theorem single_atom_analysis_fails:
  "PointGroupAnalyzer eig [s] tolerance eigen_tolerance matrix_tol = Inl UnboundLocalError"
  by (simp add: PointGroupAnalyzer_def analyze_def get_centered_molecule_def)

lemma classify_asymmetric_iff:
  "classify v1 v2 v3 et = AsymmetricTop \<longleftrightarrow>
     \<not> \<bar>v1 * v2 * v3\<bar> < et ^ 3 \<and> \<not> (\<bar>v1 - v2\<bar> < et \<and> \<bar>v1 - v3\<bar> < et) \<and>
     \<bar>v1 - v2\<bar> > et \<and> \<bar>v2 - v3\<bar> > et"
  by (auto simp: classify_def Let_def)

lemma bip_len: "length bipyramid = 6"
  by (simp add: bipyramid_def)

lemma bip_centered: "get_centered_molecule bipyramid = bipyramid"
  by (simp add: get_centered_molecule_def center_of_mass_def bipyramid_def hydrogen_def)

lemma bip_tensor:
  "fold inertia_step bipyramid (((0, 0, 0), (0, 0, 0), (0, 0, 0)), 0) =
     (((10 * (100794 / 100000), 0, 0), (0, 4 * (100794 / 100000), 0),
       (0, 0, 10 * (100794 / 100000))), 12 * (100794 / 100000))"
  by (simp add: bipyramid_def hydrogen_def)

lemma classify_bip: "classify (5 / 6) (1 / 3) (5 / 6) (1 / 100) = AsymmetricTop"
  by (simp add: classify_def power3_eq_cube)

lemma bip_dispatch:
  "PointGroupAnalyzer diagonal_eig bipyramid (3 / 10) (1 / 100) (1 / 10) = proc_asym_top bip_state"
  by (simp add: PointGroupAnalyzer_def analyze_def bip_centered bip_tensor diagonal_eig_def
        classify_bip bip_state_def bip_len)

lemma bip_valid:
  "is_valid_op (SymmOp [[1, 0, 0, 0], [0, -1, 0, 0], [0, 0, -1, 0], [0, 0, 0, 1]]) bipyramid (3 / 10)"
  "is_valid_op (SymmOp [[-1, 0, 0, 0], [0, 1, 0, 0], [0, 0, -1, 0], [0, 0, 0, 1]]) bipyramid (3 / 10)"
  "is_valid_op (SymmOp [[-1, 0, 0, 0], [0, -1, 0, 0], [0, 0, 1, 0], [0, 0, 0, 1]]) bipyramid (3 / 10)"
  "is_valid_op (SymmOp [[-1, 0, 0, 0], [0, 1, 0, 0], [0, 0, 1, 0], [0, 0, 0, 1]]) bipyramid (3 / 10)"
  by (simp_all add: valid_eval bipyramid_def)

lemma bip_r2:
  "check_R2_axes_asym bip_state =
     bip_state\<lparr>symmops := [identity_op, from_origin_axis_angle (1, 0, 0) 180,
                    from_origin_axis_angle (0, 1, 0) 180, from_origin_axis_angle (0, 0, 1) 180],
                rot_sym := [((1, 0, 0), 2), ((0, 1, 0), 2), ((0, 0, 1), 2)]\<rparr>"
  unfolding check_R2_axes_asym_def
  by (simp add: bip_state_def Let_def bip_valid rot180_x rot180_y rot180_z
        del: from_origin_axis_angle.simps)

lemma bip_result:
  "proc_asym_top bip_state =
     Inr (bip_state\<lparr>symmops := [identity_op, from_origin_axis_angle (1, 0, 0) 180,
                    from_origin_axis_angle (0, 1, 0) 180, from_origin_axis_angle (0, 0, 1) 180,
                    reflection (1, 0, 0)],
                rot_sym := [((1, 0, 0), 2), ((0, 1, 0), 2), ((0, 0, 1), 2)],
                sch_symbol := Some ''D2h''\<rparr>)"
  unfolding proc_asym_top_def bip_r2
  by (simp add: proc_dihedral_def find_mirror_def bip_state_def refl_x bip_valid str_nat_2
        del: from_origin_axis_angle.simps reflection.simps)

text \<open>
  C2: the test \<open>eig_all_diff\<close> compares \<open>v1\<close> with \<open>v2\<close> twice and never \<open>v1\<close> with \<open>v3\<close>. The
  molecule \<open>bipyramid\<close> has the eigenvalues 5/6, 1/3, 5/6: the first and the third are
  equal, the molecule is neither linear nor spherical by the tests, and it is dispatched to
  the asymmetric-top procedure, which assigns "D2h".
\<close>

theorem asym_dispatch_ignores_v1_v3:
  "classify (5 / 6) (1 / 3) (5 / 6) (1 / 100) = AsymmetricTop \<and>
   \<not> \<bar>(5 / 6 :: real) - 5 / 6\<bar> > 1 / 100 \<and>
   PointGroupAnalyzer diagonal_eig bipyramid (3 / 10) (1 / 100) (1 / 10) = proc_asym_top bip_state \<and>
   map_sum id sch_symbol (proc_asym_top bip_state) = Inr (Some ''D2h'')"
  by (simp add: classify_bip bip_dispatch bip_result)

lemma find_unique_axis_None:
  "find_unique_axis ev axes et ps = None \<longleftrightarrow> (\<forall>(i, j) \<in> set ps. \<not> \<bar>ev ! i - ev ! j\<bar> < et)"
proof (induction ps)
  case Nil
  show ?case by simp
next
  case (Cons p ps)
  obtain i j where p: "p = (i, j)" by (cases p)
  show ?case
  proof (cases "\<bar>ev ! i - ev ! j\<bar> < et")
    case True
    then show ?thesis by (simp add: p Let_def)
  next
    case False
    with Cons.IH show ?thesis by (simp add: p)
  qed
qed

lemma classify_symmetric_finds_axis:
  assumes "classify v1 v2 v3 et = SymmetricTop"
    and "\<bar>v1 - v2\<bar> \<noteq> et" and "\<bar>v2 - v3\<bar> \<noteq> et"
  shows "find_unique_axis [v1, v2, v3] axes et (combinations2 [0..<3]) \<noteq> None"
proof -
  from assms(1) have "\<not> (\<bar>v1 - v2\<bar> > et \<and> \<bar>v2 - v3\<bar> > et)"
    by (auto simp: classify_def Let_def split: if_splits)
  with assms(2,3) have "\<bar>v1 - v2\<bar> < et \<or> \<bar>v2 - v3\<bar> < et"
    by linarith
  then show ?thesis
    unfolding find_unique_axis_None combinations_range3 by auto
qed

lemma planar_len: "length planar_six = 6"
  by (simp add: planar_six_def)

lemma planar_centered: "get_centered_molecule planar_six = planar_six"
  by (simp add: get_centered_molecule_def center_of_mass_def planar_six_def hydrogen_def)

lemma planar_tensor:
  "fold inertia_step planar_six (((0, 0, 0), (0, 0, 0), (0, 0, 0)), 0) =
     (((12 * (100794 / 100000), 0, 0), (0, 16 * (100794 / 100000), 0),
       (0, 0, 4 * (100794 / 100000))), 16 * (100794 / 100000))"
  by (simp add: planar_six_def hydrogen_def)

lemma planar_classify: "classify (3 / 4) 1 (1 / 4) (1 / 4) = SymmetricTop"
  by (simp add: classify_def power3_eq_cube)

text \<open>
  C10: the dispatcher sends a molecule to the symmetric-top procedure when a difference of
  eigenvalues is not greater than the tolerance, and the loop of \<open>_proc_sym_top\<close> assigns
  \<open>unique_axis\<close> only when a difference is less than the tolerance. For the molecule
  \<open>planar_six\<close> analyzed with the eigenvalue tolerance 1/4 the eigenvalues are 3/4, 1 and
  1/4: the first two differ by exactly the tolerance and no pair is closer. The molecule is
  dispatched to the symmetric-top procedure, the loop assigns nothing, and reading
  \<open>unique_axis\<close> raises UnboundLocalError.
\<close>

theorem sym_top_unique_axis_unbound:
  "classify (3 / 4) 1 (1 / 4) (1 / 4) = SymmetricTop \<and>
   find_unique_axis [3 / 4, 1, 1 / 4] [(1, 0, 0), (0, 1, 0), (0, 0, 1)] (1 / 4)
     (combinations2 [0..<3]) = None \<and>
   PointGroupAnalyzer diagonal_eig planar_six (3 / 10) (1 / 4) (1 / 10) = Inl UnboundLocalError"
  by (simp add: PointGroupAnalyzer_def analyze_def planar_centered diagonal_eig_def planar_tensor
        planar_classify planar_len proc_sym_top_def combinations_range3)

subsection \<open>The spherical-top procedure\<close>

lemma sph_top_falls_back:
  assumes "find_spherical_axes st = Inr st1"
    and "max_rot (rot_sym st1) = Some (main_axis, rot)" and "rot < 3"
  shows "proc_sph_top st = proc_sym_top st1"
  using assms by (simp add: proc_sph_top_def)

lemma sph_top_no_axis:
  assumes "find_spherical_axes st = Inr st1" and "rot_sym st1 = []"
  shows "proc_sph_top st = Inl ValueError"
  using assms by (simp add: proc_sph_top_def)

lemma cross_len: "length balanced_cross = 6"
  by (simp add: balanced_cross_def)

lemma cross_centered: "get_centered_molecule balanced_cross = balanced_cross"
  by (simp add: get_centered_molecule_def center_of_mass_def balanced_cross_def hydrogen_def
        helium_def oxygen_def)

lemma cross_dists: "dists_of balanced_cross = [(4, 0), (4, 0), (2, 0), (2, 0), (1, 0), (1, 0)]"
  by (simp add: dists_of_def balanced_cross_def norm3_x norm3_y norm3_z del: norm3.simps)

lemma cross_labels:
  "fclusterdata [(4, 0), (4, 0), (2, 0), (2, 0), (1, 0), (1, 0)] (3 / 10) = [3, 3, 2, 2, 1, 1]"
  by (simp add: fclusterdata_def)

lemma cross_clusters:
  "clustered_sites balanced_cross (3 / 10) =
     [(2, [balanced_cross ! 0, balanced_cross ! 1]),
      (1, [balanced_cross ! 2, balanced_cross ! 3]),
      (1 / 2, [balanced_cross ! 4, balanced_cross ! 5])]"
  by (simp add: clustered_sites_def cross_dists cross_labels clustered_dists_def
        avg_dist_def mean_rows_def) (simp add: balanced_cross_def)

lemma cross_cluster_sites:
  "cluster_sites balanced_cross (3 / 10) =
     Inr (None, [((2, hydrogen), [balanced_cross ! 0, balanced_cross ! 1]),
                 ((1, helium), [balanced_cross ! 2, balanced_cross ! 3]),
                 ((1 / 2, oxygen), [balanced_cross ! 4, balanced_cross ! 5])])"
  by (simp add: cluster_sites_def cross_clusters group_by_specie_def)
     (simp add: balanced_cross_def)

lemma cross_tensor:
  "fold inertia_step balanced_cross (((0, 0, 0), (0, 0, 0), (0, 0, 0)), 0) =
     (((2000613 / 31250, 0, 0), (0, 803161 / 12500, 0), (0, 0, 4017181 / 62500)),
      3008553 / 31250)"
  by (simp add: balanced_cross_def hydrogen_def helium_def oxygen_def)

lemma cross_classify:
  "classify (666871 / 1002851) (4015805 / 6017106) (4017181 / 6017106) (1 / 100) = SphericalTop"
  by (simp add: classify_def power3_eq_cube)

lemma cross_axes: "find_spherical_axes cross_state = Inr cross_state"
  by (simp add: find_spherical_axes_def get_smallest_sym_set_def cross_state_def
        cross_cluster_sites)

lemma cross_dispatch:
  "PointGroupAnalyzer diagonal_eig balanced_cross (3 / 10) (1 / 100) (1 / 10) = proc_sph_top cross_state"
  by (simp add: PointGroupAnalyzer_def analyze_def cross_centered diagonal_eig_def cross_tensor
        cross_classify cross_state_def cross_len)

text \<open>
  C3: \<open>_proc_sph_top\<close> takes the maximum of \<open>rot_sym\<close> before it tests whether \<open>rot_sym\<close> is
  empty. The molecule \<open>balanced_cross\<close> is a spherical top by the eigenvalue tests; its
  smallest cluster has two atoms, so the axis search tries no triple and finds no axis, and
  the procedure raises ValueError instead of falling back to the symmetric-top procedure.
\<close>

theorem sph_top_no_axis_fails:
  "find_spherical_axes cross_state = Inr cross_state \<and> rot_sym cross_state = [] \<and>
   proc_sph_top cross_state = Inl ValueError \<and>
   PointGroupAnalyzer diagonal_eig balanced_cross (3 / 10) (1 / 100) (1 / 10) = Inl ValueError"
proof -
  have empty: "rot_sym cross_state = []"
    by (simp add: cross_state_def)
  from sph_top_no_axis [OF cross_axes empty] cross_axes empty cross_dispatch
  show ?thesis by simp
qed

subsection \<open>The mirror-plane search\<close>

lemma tilted_find_mirror:
  "find_mirror (st\<lparr>processed_mol := tilted_pair, tol := 3 / 10, rot_sym := []\<rparr>) (0, 0, 1) =
     (''v'', st\<lparr>processed_mol := tilted_pair, tol := 3 / 10, rot_sym := [],
                 symmops := symmops st @ [reflection (1, 0, -1)]\<rparr>)"
  by (simp add: find_mirror_def refl_z refl_skew tilted_pair_def valid_eval
        del: reflection.simps)

lemma tilted_find_mirror_rev:
  "find_mirror (st\<lparr>processed_mol := rev tilted_pair, tol := 3 / 10, rot_sym := []\<rparr>) (0, 0, 1) =
     ('''', st\<lparr>processed_mol := rev tilted_pair, tol := 3 / 10, rot_sym := []\<rparr>)"
  by (simp add: find_mirror_def refl_z refl_skew' tilted_pair_def valid_eval
        del: reflection.simps)

text \<open>
  C7: the scan compares the signed projection \<open>np.dot(normal, axis)\<close> with the tolerance,
  not its magnitude. For the two hydrogen atoms of \<open>tilted_pair\<close> and the axis (0, 0, 1) the
  difference of the coordinates is (1, 0, -1): its projection on the axis is -1, of
  magnitude 1, far above the tolerance 0.3, and yet the pair is taken as a candidate and
  yields the mirror type "v". With the two atoms in the other order the projection is 1
  and the same pair is not taken: the result is "".
\<close>

theorem mirror_scan_signed_projection:
  "vdot (vsub (coords (tilted_pair ! 0)) (coords (tilted_pair ! 1))) (0, 0, 1) = -1 \<and>
   fst (find_mirror (st\<lparr>processed_mol := tilted_pair, tol := 3 / 10, rot_sym := []\<rparr>) (0, 0, 1))
     = ''v'' \<and>
   fst (find_mirror (st\<lparr>processed_mol := rev tilted_pair, tol := 3 / 10, rot_sym := []\<rparr>) (0, 0, 1))
     = ''''"
  by (simp add: tilted_find_mirror tilted_find_mirror_rev) (simp add: tilted_pair_def)

subsection \<open>Clustering of sites\<close>







lemma chain_labels:
  "fclusterdata [(1 / 4, 0), (1 / 4, 0), (1 / 2, 0), (3 / 4, 0), (1, 0), (5 / 4, 0)] (3 / 10) =
     [1, 1, 1, 1, 1, 1]"
  by (simp add: fclusterdata_def)












subsection \<open>The rotation-order search\<close>

lemma norm_inner: "norm3 (27 / 200, 0, 3 / 5) = 123 / 200" "norm3 (- (27 / 200), 0, 3 / 5) = 123 / 200"
proof -
  have "sqrt (15129 / 40000) = 123 / 200"
    by (rule real_sqrt_unique) (simp_all add: power2_eq_square)
  then show "norm3 (27 / 200, 0, 3 / 5) = 123 / 200" "norm3 (- (27 / 200), 0, 3 / 5) = 123 / 200"
    by simp_all
qed

lemma norm_outer: "norm3 (4 / 5, 0, - (3 / 5)) = 1" "norm3 (- (4 / 5), 0, - (3 / 5)) = 1"
  by simp_all

lemma nested_dists:
  "dists_of nested_pairs = [(123 / 200, 0), (123 / 200, 0), (1, 0), (1, 0)]"
  by (simp add: dists_of_def nested_pairs_def norm_inner norm_outer del: norm3.simps)

lemma nested_labels:
  "fclusterdata [(123 / 200, 0), (123 / 200, 0), (1, 0), (1, 0)] (1 / 10) = [1, 1, 2, 2]"
  "fclusterdata [(123 / 200, 0), (123 / 200, 0), (1, 0), (1, 0)] (3 / 10) = [1, 1, 2, 2]"
  by (simp_all add: fclusterdata_def)

lemma nested_clusters:
  "clustered_sites nested_pairs (1 / 10) =
     [(123 / 400, [nested_pairs ! 0, nested_pairs ! 1]), (1 / 2, [nested_pairs ! 2, nested_pairs ! 3])]"
  "clustered_sites nested_pairs (3 / 10) =
     [(123 / 400, [nested_pairs ! 0, nested_pairs ! 1]), (1 / 2, [nested_pairs ! 2, nested_pairs ! 3])]"
  by (simp_all add: clustered_sites_def nested_dists nested_labels clustered_dists_def
        avg_dist_def mean_rows_def) (simp_all add: nested_pairs_def)

lemma nested_cluster_sites:
  "cluster_sites nested_pairs (1 / 10) =
     Inr (None, [((123 / 400, hydrogen), [nested_pairs ! 0, nested_pairs ! 1]),
                 ((1 / 2, hydrogen), [nested_pairs ! 2, nested_pairs ! 3])])"
  "cluster_sites nested_pairs (3 / 10) =
     Inr (None, [((123 / 400, hydrogen), [nested_pairs ! 0, nested_pairs ! 1]),
                 ((1 / 2, hydrogen), [nested_pairs ! 2, nested_pairs ! 3])])"
  by (simp_all add: cluster_sites_def nested_clusters group_by_specie_def)
     (simp_all add: nested_pairs_def)

lemma nested_min_set:
  "get_smallest_set_not_on_axis (st\<lparr>processed_mol := nested_pairs, tol := 1 / 10\<rparr>) (0, 0, 1) =
     Inr [nested_pairs ! 0, nested_pairs ! 1]"
  "get_smallest_set_not_on_axis (st\<lparr>processed_mol := nested_pairs, tol := 3 / 10\<rparr>) (0, 0, 1) =
     Inr [nested_pairs ! 2, nested_pairs ! 3]"
  by (simp_all add: get_smallest_set_not_on_axis_def nested_cluster_sites)
     (simp_all add: not_on_axis_def nested_pairs_def norm3_y del: norm3.simps)

lemma nested_valid:
  "is_valid_op (SymmOp [[-1, 0, 0, 0], [0, -1, 0, 0], [0, 0, 1, 0], [0, 0, 0, 1]]) nested_pairs (1 / 10)"
  "\<not> is_valid_op (SymmOp [[-1, 0, 0, 0], [0, -1, 0, 0], [0, 0, 1, 0], [0, 0, 0, 1]]) nested_pairs (3 / 10)"
  "\<not> is_valid_op (SymmOp [[1, 0, 0, 0], [0, 1, 0, 0], [0, 0, 1, 0], [0, 0, 0, 1]]) nested_pairs (3 / 10)"
  by (simp_all add: valid_eval nested_pairs_def)

lemma nested_order_tight:
  "check_rot_sym_order (st\<lparr>processed_mol := nested_pairs, tol := 1 / 10\<rparr>) (0, 0, 1) = Inr 2"
  by (simp add: check_rot_sym_order_def check_rot_sym_def nested_min_set Let_def rot180_z
        nested_valid del: from_origin_axis_angle.simps)

lemma nested_order_loose:
  "check_rot_sym_order (st\<lparr>processed_mol := nested_pairs, tol := 3 / 10\<rparr>) (0, 0, 1) = Inr 1"
  by (simp add: check_rot_sym_order_def check_rot_sym_def nested_min_set Let_def rot180_z rot360_z
        nested_valid del: from_origin_axis_angle.simps)


lemma combinations2_nth:
  "i < j \<Longrightarrow> j < length xs \<Longrightarrow> (xs ! i, xs ! j) \<in> set (combinations2 xs)"
proof (induction xs arbitrary: i j)
  case Nil
  then show ?case by simp
next
  case (Cons x xs)
  show ?case
  proof (cases i)
    case 0
    with Cons.prems obtain j' where "j = Suc j'" "j' < length xs"
      by (cases j) auto
    with 0 show ?thesis by simp
  next
    case (Suc i')
    with Cons.prems obtain j' where j: "j = Suc j'" "i' < j'" "j' < length xs"
      by (cases j) auto
    from Cons.IH [OF j(2,3)] Suc j show ?thesis by simp
  qed
qed

lemma coord_close_sym: "coord_close a b t \<Longrightarrow> coord_close b a t"
  by (cases a, cases b) (auto simp: abs_minus_commute)

lemma coord_close_mono: "coord_close a b t1 \<Longrightarrow> t1 \<le> t2 \<Longrightarrow> coord_close a b t2"
  by (cases a, cases b) auto

lemma coord_close_triangle:
  "coord_close a p t \<Longrightarrow> coord_close b p t \<Longrightarrow> coord_close a b (2 * t)"
  by (cases a, cases b, cases p) auto

lemma well_separated_nth:
  assumes "well_separated m d" and "i < length m" and "j < length m" and "i \<noteq> j"
  shows "\<not> coord_close (coords (m ! i)) (coords (m ! j)) d"
proof (cases "i < j")
  case True
  from combinations2_nth [OF True assms(3)] assms(1) show ?thesis
    by (auto simp: well_separated_def list_all_iff)
next
  case False
  with assms(4) have lt: "j < i" by simp
  from combinations2_nth [OF lt assms(2)] assms(1)
  have "\<not> coord_close (coords (m ! j)) (coords (m ! i)) d"
    by (auto simp: well_separated_def list_all_iff)
  then show ?thesis
    using coord_close_sym by blast
qed

lemma distinct_singleton_set: "distinct xs \<Longrightarrow> set xs = {j} \<Longrightarrow> xs = [j]"
proof (cases xs)
  case Nil
  assume "set xs = {j}"
  with Nil show ?thesis by simp
next
  case (Cons x ys)
  assume d: "distinct xs" and s: "set xs = {j}"
  from s Cons have x: "x = j" and sub: "set ys \<subseteq> {j}" by auto
  from d Cons x have "j \<notin> set ys" by simp
  with sub have "ys = []" by (cases ys) auto
  with Cons x show ?thesis by simp
qed

lemma filter_upt_singleton:
  "filter P [0..<n] = [j] \<longleftrightarrow> j < n \<and> P j \<and> (\<forall>k < n. P k \<longrightarrow> k = j)"
proof
  assume eq: "filter P [0..<n] = [j]"
  then have s: "set (filter P [0..<n]) = {j}" by simp
  then show "j < n \<and> P j \<and> (\<forall>k < n. P k \<longrightarrow> k = j)" by auto
next
  assume a: "j < n \<and> P j \<and> (\<forall>k < n. P k \<longrightarrow> k = j)"
  then have "set (filter P [0..<n]) = {j}" by auto
  moreover have "distinct (filter P [0..<n])" by simp
  ultimately show "filter P [0..<n] = [j]" by (rule distinct_singleton_set [rotated])
qed

lemma is_valid_op_mono:
  assumes sep: "well_separated m (2 * t2)" and le: "t1 \<le> t2" and v: "is_valid_op symmop m t1"
  shows "is_valid_op symmop m t2"
proof -
  have "\<exists>j. find_in_coord_list (cart_coords m) (operate symmop (coords s)) t2 = [j] \<and>
      species_and_occu (m ! j) = species_and_occu s" if "s \<in> set m" for s
  proof -
    from v that obtain j where
      j: "find_in_coord_list (cart_coords m) (operate symmop (coords s)) t1 = [j]"
      and sp: "species_and_occu (m ! j) = species_and_occu s"
      unfolding is_valid_op_def valid_sites_all by blast
    define p where "p = operate symmop (coords s)"
    from j have "filter (\<lambda>i. coord_close (map coords m ! i) p t1) [0..<length m] = [j]"
      by (simp add: find_in_coord_list_def cart_coords_def p_def)
    then have both: "j < length m \<and> coord_close (map coords m ! j) p t1"
      by (simp only: filter_upt_singleton)
    from both have jn: "j < length m" by (rule conjunct1)
    from both have jc: "coord_close (map coords m ! j) p t1" by (rule conjunct2)
    from jc jn have jc1: "coord_close (coords (m ! j)) p t1" by simp
    from jc1 le have jc2: "coord_close (coords (m ! j)) p t2"
      by (rule coord_close_mono)
    have uniq: "k = j" if "k < length m" and "coord_close (coords (m ! k)) p t2" for k
    proof (rule ccontr)
      assume "k \<noteq> j"
      from well_separated_nth [OF sep that(1) jn this]
      have "\<not> coord_close (coords (m ! k)) (coords (m ! j)) (2 * t2)" .
      with coord_close_triangle [OF that(2) jc2] show False by simp
    qed
    have "j < length m \<and> coord_close (map coords m ! j) p t2 \<and>
          (\<forall>k < length m. coord_close (map coords m ! k) p t2 \<longrightarrow> k = j)"
    proof (intro conjI allI impI)
      show "j < length m" by (rule jn)
      show "coord_close (map coords m ! j) p t2" using jn jc2 by simp
      fix k assume k: "k < length m" and "coord_close (map coords m ! k) p t2"
      then have "coord_close (coords (m ! k)) p t2" by simp
      with k show "k = j" by (rule uniq)
    qed
    then have "filter (\<lambda>i. coord_close (map coords m ! i) p t2) [0..<length m] = [j]"
      by (rule iffD2 [OF filter_upt_singleton])
    then have "find_in_coord_list (cart_coords m) (operate symmop (coords s)) t2 = [j]"
      by (simp add: find_in_coord_list_def cart_coords_def p_def)
    with sp show ?thesis by blast
  qed
  then show ?thesis
    unfolding is_valid_op_def valid_sites_all by blast
qed

lemma rot_scan_le: "fst (rot_scan st axis m k) \<le> max 1 k"
proof (induction k)
  case 0
  show ?case by simp
next
  case (Suc k)
  then have "fst (rot_scan st axis m k) \<le> Suc k"
    by (simp add: max_def split: if_splits)
  then show ?case
    by (simp add: Let_def del: from_origin_axis_angle.simps)
qed

lemma rot_scan_mono:
  assumes "\<And>op. is_valid_op op (processed_mol st) t1 \<Longrightarrow> is_valid_op op (processed_mol st) t2"
  shows "fst (rot_scan (st\<lparr>tol := t1\<rparr>) axis m k) \<le> fst (rot_scan (st\<lparr>tol := t2\<rparr>) axis m k)"
proof (induction k)
  case 0
  show ?case by simp
next
  case (Suc k)
  let ?op = "from_origin_axis_angle axis (360 / real (Suc k))"
  show ?case
  proof (cases "m mod Suc k \<noteq> 0")
    case True
    with Suc show ?thesis by simp
  next
    case div: False
    show ?thesis
    proof (cases "is_valid_op ?op (processed_mol st) t2")
      case True
      have "fst (rot_scan (st\<lparr>tol := t1\<rparr>) axis m (Suc k)) \<le> Suc k"
        using rot_scan_le [of "st\<lparr>tol := t1\<rparr>" axis m "Suc k"] by simp
      with div True show ?thesis
        by (simp add: Let_def del: from_origin_axis_angle.simps)
    next
      case False
      with assms have "\<not> is_valid_op ?op (processed_mol st) t1" by blast
      with div False Suc show ?thesis
        by (simp add: Let_def del: from_origin_axis_angle.simps)
    qed
  qed
qed

lemma square_dists: "dists_of square = [(1, 0), (1, 0), (1, 0), (1, 0)]"
  by (simp add: dists_of_def square_def norm3_x norm3_y del: norm3.simps)

lemma square_labels:
  "fclusterdata [(1, 0), (1, 0), (1, 0), (1, 0)] (1 / 10) = [1, 1, 1, 1]"
  "fclusterdata [(1, 0), (1, 0), (1, 0), (1, 0)] (3 / 10) = [1, 1, 1, 1]"
  by (simp_all add: fclusterdata_def)

lemma square_clusters:
  "clustered_sites square (1 / 10) = [(1 / 2, square)]"
  "clustered_sites square (3 / 10) = [(1 / 2, square)]"
  by (simp_all add: clustered_sites_def square_dists square_labels clustered_dists_def
        avg_dist_def mean_rows_def) (simp_all add: square_def)

lemma square_cluster_sites:
  "cluster_sites square (1 / 10) = Inr (None, [((1 / 2, hydrogen), square)])"
  "cluster_sites square (3 / 10) = Inr (None, [((1 / 2, hydrogen), square)])"
  by (simp_all add: cluster_sites_def square_clusters group_by_specie_def)
     (simp_all add: square_def)

lemma square_min_set:
  "get_smallest_set_not_on_axis (st\<lparr>processed_mol := square, tol := 1 / 10\<rparr>) (0, 0, 1) = Inr square"
  "get_smallest_set_not_on_axis (st\<lparr>processed_mol := square, tol := 3 / 10\<rparr>) (0, 0, 1) = Inr square"
  by (simp_all add: get_smallest_set_not_on_axis_def square_cluster_sites)
     (simp_all add: not_on_axis_def square_def norm3_x norm3_y del: norm3.simps)

lemma square_separated: "well_separated square (2 * (3 / 10))"
  by (simp add: well_separated_def square_def)

lemma square_valid:
  "is_valid_op (SymmOp [[0, -1, 0, 0], [1, 0, 0, 0], [0, 0, 1, 0], [0, 0, 0, 1]]) square (1 / 10)"
  "is_valid_op (SymmOp [[0, -1, 0, 0], [1, 0, 0, 0], [0, 0, 1, 0], [0, 0, 0, 1]]) square (3 / 10)"
  by (simp_all add: valid_eval square_def)

lemma square_len: "length square = 4"
  by (simp add: square_def)

lemma square_order:
  "check_rot_sym_order (st\<lparr>processed_mol := square, tol := 1 / 10\<rparr>) (0, 0, 1) = Inr 4"
  "check_rot_sym_order (st\<lparr>processed_mol := square, tol := 3 / 10\<rparr>) (0, 0, 1) = Inr 4"
  by (simp_all add: check_rot_sym_order_def check_rot_sym_def square_min_set square_len
        eval_nat_numeral Let_def rot90_z square_valid del: from_origin_axis_angle.simps)
lemma nested_state_tight:
  "nested_state\<lparr>tol := 1 / 10\<rparr> = nested_state\<lparr>processed_mol := nested_pairs, tol := 1 / 10\<rparr>"
  by (simp add: nested_state_def)

lemma nested_state_loose:
  "nested_state\<lparr>tol := 3 / 10\<rparr> = nested_state\<lparr>processed_mol := nested_pairs, tol := 3 / 10\<rparr>"
  by (simp add: nested_state_def)

lemma square_state_tight:
  "square_state\<lparr>tol := 1 / 10\<rparr> = square_state\<lparr>processed_mol := square, tol := 1 / 10\<rparr>"
  by (simp add: square_state_def)

lemma square_state_loose:
  "square_state\<lparr>tol := 3 / 10\<rparr> = square_state\<lparr>processed_mol := square, tol := 3 / 10\<rparr>"
  by (simp add: square_state_def)

text \<open>
  C9, as the claim states it, fails: for the molecule \<open>nested_pairs\<close> and the axis z the
  search returns the order 2 at the tolerance 0.1 and the order 1 at the tolerance 0.3. At
  0.3 the two inner atoms, 0.27 apart, both match the image of either of them, and an
  operation is valid only when every image matches exactly one atom: neither the 2-fold
  rotation nor the rotation by 360 degrees is valid.
\<close>

theorem rot_order_not_monotone:
  "(1 / 10 :: real) \<le> 3 / 10 \<and>
   check_rot_sym_order (nested_state\<lparr>tol := 1 / 10\<rparr>) (0, 0, 1) = Inr 2 \<and>
   check_rot_sym_order (nested_state\<lparr>tol := 3 / 10\<rparr>) (0, 0, 1) = Inr 1"
  by (simp only: nested_state_tight nested_state_loose nested_order_tight nested_order_loose)
     simp

text \<open>
  C9, amended: for every molecule, axis and tolerances \<open>t1 \<le> t2\<close> such that any two atoms
  differ by at least \<open>2 * t2\<close> in some coordinate (no point matches two atoms) and the
  smallest set of atoms off the axis is found and has the same size at both tolerances, the
  search returns an order at both tolerances, and the order at \<open>t1\<close> is at most the order at
  \<open>t2\<close>.
\<close>

theorem rot_order_monotone_separated:
  assumes "t1 \<le> t2" and "well_separated (processed_mol st) (2 * t2)"
    and "get_smallest_set_not_on_axis (st\<lparr>tol := t1\<rparr>) axis = Inr set1"
    and "get_smallest_set_not_on_axis (st\<lparr>tol := t2\<rparr>) axis = Inr set2"
    and "length set1 = length set2"
  shows "\<exists>r1 r2. check_rot_sym_order (st\<lparr>tol := t1\<rparr>) axis = Inr r1 \<and>
           check_rot_sym_order (st\<lparr>tol := t2\<rparr>) axis = Inr r2 \<and> r1 \<le> r2"
proof -
  let ?n = "length set2"
  have r1: "check_rot_sym_order (st\<lparr>tol := t1\<rparr>) axis =
              Inr (fst (rot_scan (st\<lparr>tol := t1\<rparr>) axis ?n ?n))"
    using assms(3,5) by (simp add: check_rot_sym_order_def check_rot_sym_def Let_def split: prod.splits)
  have r2: "check_rot_sym_order (st\<lparr>tol := t2\<rparr>) axis =
              Inr (fst (rot_scan (st\<lparr>tol := t2\<rparr>) axis ?n ?n))"
    using assms(4) by (simp add: check_rot_sym_order_def check_rot_sym_def Let_def split: prod.splits)
  have "is_valid_op op (processed_mol st) t2" if "is_valid_op op (processed_mol st) t1" for op
    using assms(2,1) that by (rule is_valid_op_mono)
  then have "fst (rot_scan (st\<lparr>tol := t1\<rparr>) axis ?n ?n) \<le> fst (rot_scan (st\<lparr>tol := t2\<rparr>) axis ?n ?n)"
    by (rule rot_scan_mono)
  with r1 r2 show ?thesis by blast
qed



theorem rot_order_monotone_separated_witness:
  "(1 / 10 :: real) \<le> 3 / 10 \<and> well_separated (processed_mol square_state) (2 * (3 / 10)) \<and>
   get_smallest_set_not_on_axis (square_state\<lparr>tol := 1 / 10\<rparr>) (0, 0, 1) = Inr square \<and>
   get_smallest_set_not_on_axis (square_state\<lparr>tol := 3 / 10\<rparr>) (0, 0, 1) = Inr square \<and>
   (\<exists>r1 r2. check_rot_sym_order (square_state\<lparr>tol := 1 / 10\<rparr>) (0, 0, 1) = Inr r1 \<and>
      check_rot_sym_order (square_state\<lparr>tol := 3 / 10\<rparr>) (0, 0, 1) = Inr r2 \<and> r1 \<le> r2)"
proof -
  have le: "(1 / 10 :: real) \<le> 3 / 10" by simp
  have sep: "well_separated (processed_mol square_state) (2 * (3 / 10))"
    using square_separated by (simp add: square_state_def)
  have s1: "get_smallest_set_not_on_axis (square_state\<lparr>tol := 1 / 10\<rparr>) (0, 0, 1) = Inr square"
    by (simp only: square_state_tight square_min_set)
  have s2: "get_smallest_set_not_on_axis (square_state\<lparr>tol := 3 / 10\<rparr>) (0, 0, 1) = Inr square"
    by (simp only: square_state_loose square_min_set)
  from rot_order_monotone_separated [OF le sep s1 s2 refl] le sep s1 s2 show ?thesis
    by blast
qed

end
